theory Spec2Isabelle
  imports Complex_Main "HOL-Library.Multiset"
begin

chapter \<open>The NFT record API of the Onchain Summer backend\<close>

text \<open>
  A model of \<^verbatim>\<open>src/models/NFT.js\<close> (the schema, its statics, virtuals and pre-save
  hook) and of \<^verbatim>\<open>src/controllers/nftController.js\<close> (the handlers
  \<^verbatim>\<open>saveNFT\<close>, \<^verbatim>\<open>getUserNFTs\<close> and \<^verbatim>\<open>getEventStats\<close>), followed by
  the properties proved of them. A handler is a function of the environment, the
  collection and the request; it returns its response, the collection when it can change
  it, and the store operations it issued.
\<close>

section \<open>JavaScript values and string helpers\<close>

text \<open>
  The request body is parsed JSON, and a query value is what the query parser makes of
  the URL: a string, an array or an object. A field that is absent reads as
  \<^verbatim>\<open>undefined\<close>. Strings are ASCII. Numbers are integers: the model is exact
  where every number stays within the safe range of a double, up to \<open>2 ^ 53 - 1\<close>
  in magnitude, and a property that depends on the value of a number is stated with that
  bound.
\<close>

datatype jsval =
    JUndefined
  | JNull
  | JBool bool
  | JNum int
  | JStr string
  | JArr "jsval list"
  | JObj "(string \<times> jsval) list"

text \<open>JavaScript truthiness, as \<^verbatim>\<open>!v\<close> and \<^verbatim>\<open>a || b\<close> use it.\<close>

fun truthy :: "jsval \<Rightarrow> bool" where
  "truthy JUndefined = False"
| "truthy JNull = False"
| "truthy (JBool b) = b"
| "truthy (JNum n) = (n \<noteq> 0)"
| "truthy (JStr s) = (s \<noteq> [])"
| "truthy (JArr xs) = True"
| "truthy (JObj kvs) = True"

text \<open>Property access \<^verbatim>\<open>v?.k\<close> for a key that no prototype defines: only an
  object has own JSON properties; on a repeated key the last one wins.\<close>

fun get_prop :: "jsval \<Rightarrow> string \<Rightarrow> jsval" where
  "get_prop (JObj kvs) k = (case map_of (rev kvs) k of Some v \<Rightarrow> v | None \<Rightarrow> JUndefined)"
| "get_prop v k = JUndefined"

definition upper_chars :: string where
  "upper_chars = ''ABCDEFGHIJKLMNOPQRSTUVWXYZ''"

definition lower_chars :: string where
  "lower_chars = ''abcdefghijklmnopqrstuvwxyz''"

definition digit_chars :: string where
  "digit_chars = ''0123456789''"

definition lower_char :: "char \<Rightarrow> char" where
  "lower_char c = (case map_of (zip upper_chars lower_chars) c of Some l \<Rightarrow> l | None \<Rightarrow> c)"

text \<open>\<^verbatim>\<open>String.prototype.toLowerCase\<close> on ASCII strings.\<close>

definition toLowerCase :: "string \<Rightarrow> string" where
  "toLowerCase s = map lower_char s"

function show_nat :: "nat \<Rightarrow> string" where
  "show_nat n = (if n < 10 then [digit_chars ! n]
                 else show_nat (n div 10) @ [digit_chars ! (n mod 10)])"
  by pat_completeness auto
termination
  by (relation "measure id") auto

definition show_int :: "int \<Rightarrow> string" where
  "show_int i = (if i < 0 then CHR ''-'' # show_nat (nat (- i)) else show_nat (nat i))"

fun join_comma :: "string list \<Rightarrow> string" where
  "join_comma [] = []"
| "join_comma [s] = s"
| "join_comma (s # t # ss) = s @ '','' @ join_comma (t # ss)"

fun all_some :: "'a option list \<Rightarrow> 'a list option" where
  "all_some [] = Some []"
| "all_some (None # xs) = None"
| "all_some (Some x # xs) = map_option (Cons x) (all_some xs)"

text \<open>The conversion of a value to a string, as \<^verbatim>\<open>parseInt\<close>, a template literal and
  \<^verbatim>\<open>new Date\<close> apply it; \<open>None\<close> when it throws a TypeError. An object
  converts by \<^verbatim>\<open>Object.prototype.toString\<close>, unless it has a \<^verbatim>\<open>toString\<close>
  property of its own: a parsed value is never callable, and the conversion throws. An
  array joins the conversions of its elements with commas, \<^verbatim>\<open>null\<close> elements
  giving the empty string.\<close>

fun toString :: "jsval \<Rightarrow> string option" where
  "toString JUndefined = Some ''undefined''"
| "toString JNull = Some ''null''"
| "toString (JBool b) = Some (if b then ''true'' else ''false'')"
| "toString (JNum n) = Some (show_int n)"
| "toString (JStr s) = Some s"
| "toString (JArr xs) =
     map_option join_comma
       (all_some (map (\<lambda>x. if x = JNull \<or> x = JUndefined then Some [] else toString x) xs))"
| "toString (JObj kvs) =
     (if ''toString'' \<in> set (map fst kvs) then None else Some ''[object Object]'')"

section \<open>The patterns of the schema and of the controller\<close>

definition is_hex :: "char \<Rightarrow> bool" where
  "is_hex c = (c \<in> set ''abcdefABCDEF'' \<or> c \<in> set digit_chars)"

definition is_alnum :: "char \<Rightarrow> bool" where
  "is_alnum c = (c \<in> set lower_chars \<or> c \<in> set upper_chars \<or> c \<in> set digit_chars)"

text \<open>\<^verbatim>\<open>/^0x[a-fA-F0-9]{n}$/\<close>\<close>

definition hex_pattern :: "nat \<Rightarrow> string \<Rightarrow> bool" where
  "hex_pattern n s = (take 2 s = ''0x'' \<and> length (drop 2 s) = n \<and> list_all is_hex (drop 2 s))"

definition address_pattern :: "string \<Rightarrow> bool" where
  "address_pattern s = hex_pattern 40 s"

definition txhash_pattern :: "string \<Rightarrow> bool" where
  "txhash_pattern s = hex_pattern 64 s"

text \<open>\<^verbatim>\<open>/^Qm[a-zA-Z0-9]{44}$/\<close>\<close>

definition cid_pattern :: "string \<Rightarrow> bool" where
  "cid_pattern s = (take 2 s = ''Qm'' \<and> length (drop 2 s) = 44 \<and> list_all is_alnum (drop 2 s))"

text \<open>\<^verbatim>\<open>/^ipfs:\/\/Qm[a-zA-Z0-9]{44}$/\<close>\<close>

definition uri_pattern :: "string \<Rightarrow> bool" where
  "uri_pattern s = (take 7 s = ''ipfs://'' \<and> cid_pattern (drop 7 s))"

text \<open>\<^verbatim>\<open>/^https:\/\/.*\.pinata\.cloud\/ipfs\/Qm[a-zA-Z0-9]{44}$/\<close>: the tail after
  \<^verbatim>\<open>.*\<close> has a fixed length of 65 characters, and the dot matches no line terminator.\<close>

definition image_pattern :: "string \<Rightarrow> bool" where
  "image_pattern s =
     (let n = length s in
      73 \<le> n \<and> take 8 s = ''https://''
      \<and> list_all (\<lambda>c. c \<noteq> CHR 0x0A \<and> c \<noteq> CHR 0x0D) (take (n - 73) (drop 8 s))
      \<and> take 19 (drop (n - 65) s) = ''.pinata.cloud/ipfs/''
      \<and> cid_pattern (drop (n - 46) s))"

section \<open>The NFT document (models/NFT.js)\<close>

text \<open>The stored fields of the schema, \<^verbatim>\<open>eventData\<close> flattened into
  \<open>eventName\<close> and \<open>mintedAt\<close>, with the two timestamps. Times are milliseconds since
  the epoch. The generated \<^verbatim>\<open>_id\<close> and \<^verbatim>\<open>__v\<close> are left out: no handler
  reads them.\<close>

datatype nft_status = Pending | Confirmed | Failed

record nft =
  walletAddress :: string
  ipfsCid :: string
  metadataUri :: string
  tokenId :: string
  contractAddress :: string
  transactionHash :: string
  eventName :: string
  mintedAt :: int
  networkChainId :: int
  imageUrl :: "string option"
  status :: nft_status
  userAgent :: "string option"
  ipAddress :: "string option"
  createdAt :: int
  updatedAt :: int

text \<open>The two virtuals of the schema, present on a hydrated document.\<close>

definition virtual_pinataImageUrl :: "nft \<Rightarrow> string option" where
  "virtual_pinataImageUrl d =
     (if ipfsCid d \<noteq> [] then Some (''https://gateway.pinata.cloud/ipfs/'' @ ipfsCid d) else None)"

definition virtual_blockExplorerUrl :: "nft \<Rightarrow> string" where
  "virtual_blockExplorerUrl d =
     (let baseUrl = (if networkChainId d = 8453 then ''https://basescan.org/tx/''
                     else ''https://sepolia.basescan.org/tx/'')
      in baseUrl @ transactionHash d)"

section \<open>Errors, environment and the trace of store operations\<close>

text \<open>One failure per schema path: a failed cast, or the first validator that fails,
  with the message the schema gives it.\<close>

datatype vfail =
    CastError
  | RequiredError string
  | MatchError string
  | EnumError
  | ValidateError string

text \<open>What a \<^verbatim>\<open>catch\<close> block can receive: \<open>ValidationError\<close> has the name
  the controller tests, \<open>MongoServerError\<close> carries the \<^verbatim>\<open>code\<close>.\<close>

datatype js_error =
    TypeError
  | ValidationError "(string \<times> vfail) list"
  | MongoServerError int

text \<open>What a handler reads from outside its arguments: the clock, \<^verbatim>\<open>NODE_ENV\<close>,
  the text of an error's \<^verbatim>\<open>message\<close> and the engine's \<^verbatim>\<open>Date.parse\<close>
  (\<open>None\<close> is NaN). The clock does not advance during one request.\<close>

record env =
  now :: int
  development :: bool
  error_message :: "js_error \<Rightarrow> string"
  date_parse :: "string \<Rightarrow> int option"

text \<open>Every call a handler makes on the model is recorded, in order.\<close>

datatype store_op =
    FindOne string
  | Insert nft
  | CountDocuments string
  | Find string int int
  | Aggregate

section \<open>Schema paths: cast, setter, validators\<close>

datatype cast = CastThrows | CastNull | CastTo string

text \<open>The string cast of the document library: \<^verbatim>\<open>null\<close> and
  \<^verbatim>\<open>undefined\<close> pass through, an object with a string \<^verbatim>\<open>_id\<close> casts to
  it, a value with a \<^verbatim>\<open>toString\<close> of its own casts by it, arrays and plain
  objects fail.\<close>

fun castString :: "jsval \<Rightarrow> cast" where
  "castString JUndefined = CastNull"
| "castString JNull = CastNull"
| "castString (JBool b) = CastTo (if b then ''true'' else ''false'')"
| "castString (JNum n) = CastTo (show_int n)"
| "castString (JStr s) = CastTo s"
| "castString (JArr xs) = CastThrows"
| "castString (JObj kvs) =
     (case get_prop (JObj kvs) ''_id'' of
        JStr s \<Rightarrow> if s \<noteq> [] then CastTo s else CastThrows
      | _ \<Rightarrow> CastThrows)"

text \<open>A required string path: the \<^verbatim>\<open>lowercase\<close> setter after the cast, then
  \<^verbatim>\<open>required\<close>, then \<^verbatim>\<open>match\<close>.\<close>

definition string_path ::
  "bool \<Rightarrow> string \<Rightarrow> (string \<Rightarrow> bool) \<Rightarrow> string \<Rightarrow> jsval \<Rightarrow> vfail + string" where
  "string_path lowercase required_msg pattern match_msg v =
     (case castString v of
        CastThrows \<Rightarrow> Inl CastError
      | CastNull \<Rightarrow> Inl (RequiredError required_msg)
      | CastTo s \<Rightarrow>
          (let s' = (if lowercase then toLowerCase s else s) in
           if s' = [] then Inl (RequiredError required_msg)
           else if \<not> pattern s' then Inl (MatchError match_msg)
           else Inr s'))"

definition walletAddress_path :: "jsval \<Rightarrow> vfail + string" where
  "walletAddress_path =
     string_path True ''Wallet address is required'' address_pattern
       ''Invalid Ethereum address format''"

definition ipfsCid_path :: "jsval \<Rightarrow> vfail + string" where
  "ipfsCid_path =
     string_path False ''IPFS CID is required'' cid_pattern ''Invalid IPFS CID format''"

definition metadataUri_path :: "jsval \<Rightarrow> vfail + string" where
  "metadataUri_path =
     string_path False ''Metadata URI is required'' uri_pattern ''Invalid IPFS URI format''"

definition tokenId_path :: "jsval \<Rightarrow> vfail + string" where
  "tokenId_path = string_path False ''Token ID is required'' (\<lambda>s. True) []"

definition contractAddress_path :: "jsval \<Rightarrow> vfail + string" where
  "contractAddress_path =
     string_path True ''Contract address is required'' address_pattern
       ''Invalid contract address format''"

definition transactionHash_path :: "jsval \<Rightarrow> vfail + string" where
  "transactionHash_path =
     string_path True ''Transaction hash is required'' txhash_pattern
       ''Invalid transaction hash format''"

definition default_eventName :: string where
  "default_eventName = ''Onchain Summer Lagos''"

text \<open>\<^verbatim>\<open>eventData.eventName\<close>: a default and an \<^verbatim>\<open>enum\<close> of one value.\<close>

definition eventName_path :: "jsval \<Rightarrow> vfail + string" where
  "eventName_path v =
     (case castString v of
        CastThrows \<Rightarrow> Inl CastError
      | CastNull \<Rightarrow> Inr default_eventName
      | CastTo s \<Rightarrow> if s \<in> set [''Onchain Summer Lagos''] then Inr s else Inl EnumError)"

text \<open>\<^verbatim>\<open>new Date(v)\<close>; \<open>None\<close> is the invalid date. A number is a time value
  when within 8.64e15 ms of the epoch, a boolean or \<^verbatim>\<open>null\<close> converts to a number,
  anything else is converted to a string, which can throw, and parsed.\<close>

fun newDate :: "env \<Rightarrow> jsval \<Rightarrow> js_error + int option" where
  "newDate e (JNum n) = Inr (if \<bar>n\<bar> \<le> 8640000000000000 then Some n else None)"
| "newDate e (JBool b) = Inr (Some (if b then 1 else 0))"
| "newDate e JNull = Inr (Some 0)"
| "newDate e JUndefined = Inr None"
| "newDate e v = (case toString v of None \<Rightarrow> Inl TypeError | Some s \<Rightarrow> Inr (date_parse e s))"

text \<open>\<^verbatim>\<open>eventData.mintedAt\<close>: a required date; the invalid date fails the cast.\<close>

definition mintedAt_path :: "int option \<Rightarrow> vfail + int" where
  "mintedAt_path v = (case v of None \<Rightarrow> Inl CastError | Some t \<Rightarrow> Inr t)"

text \<open>\<^verbatim>\<open>imageUrl\<close>: the validator \<^verbatim>\<open>!v || /.../.test(v)\<close>.\<close>

definition imageUrl_path :: "string \<Rightarrow> vfail + string option" where
  "imageUrl_path v =
     (if v = [] \<or> image_pattern v then Inr (Some v)
      else Inl (ValidateError ''Invalid Pinata image URL format''))"

definition errs :: "string \<Rightarrow> vfail + 'a \<Rightarrow> (string \<times> vfail) list" where
  "errs path r = (case r of Inl f \<Rightarrow> [(path, f)] | Inr v \<Rightarrow> [])"

section \<open>Requests and responses\<close>

text \<open>The fields \<^verbatim>\<open>saveNFT\<close> destructures from the body, the
  \<^verbatim>\<open>User-Agent\<close> header and the caller's address.\<close>

record save_request =
  req_walletAddress :: jsval
  req_ipfsCid :: jsval
  req_metadataUri :: jsval
  req_tokenId :: jsval
  req_contractAddress :: jsval
  req_transactionHash :: jsval
  req_eventData :: jsval
  req_userAgent :: "string option"
  req_ip :: "string option"

text \<open>A response: the status code and the JSON body's \<^verbatim>\<open>success\<close> and
  \<^verbatim>\<open>message\<close> (when it has one), with the rest of the body as \<open>content\<close>.\<close>

record 'c response =
  http_status :: nat
  success :: bool
  message :: "string option"
  content :: 'c

datatype save_content =
    RequiredFields "string list"
  | ExistingData nft
  | SavedData nft int bool
  | ValidationErrors "(string \<times> vfail) list"
  | ErrorText string

definition required_fields :: "string list" where
  "required_fields =
     [''walletAddress'', ''ipfsCid'', ''metadataUri'', ''tokenId'', ''contractAddress'',
      ''transactionHash'']"

section \<open>The model's store operations\<close>

text \<open>The collection is the list of its documents in insertion order. The store is
  reachable throughout: an operation fails only as written below (a duplicate key on insert,
  a negative skip in a query).\<close>

definition findOne :: "string \<Rightarrow> nft list \<Rightarrow> nft option" where
  "findOne h db = find (\<lambda>d. transactionHash d = h) db"

text \<open>The statics \<^verbatim>\<open>getUserNFTCount\<close> of the schema.\<close>

definition getUserNFTCount :: "nft list \<Rightarrow> string \<Rightarrow> int" where
  "getUserNFTCount db walletAddress' =
     int (length (filter (\<lambda>d. walletAddress d = toLowerCase walletAddress'
                              \<and> status d = Confirmed) db))"

text \<open>The two values of \<^verbatim>\<open>nftData\<close> whose evaluation can throw: the date of
  \<^verbatim>\<open>eventData.mintedAt\<close> and the template literal of \<^verbatim>\<open>imageUrl\<close>.\<close>

definition nftData :: "env \<Rightarrow> save_request \<Rightarrow> js_error + (int option \<times> string)" where
  "nftData e r =
     (let eventData = req_eventData r in
      case (if truthy (get_prop eventData ''mintedAt'')
            then newDate e (get_prop eventData ''mintedAt'') else Inr (Some (now e))) of
        Inl error \<Rightarrow> Inl error
      | Inr mintedAt' \<Rightarrow>
          (case toString (req_ipfsCid r) of
             None \<Rightarrow> Inl TypeError
           | Some ipfsCid' \<Rightarrow>
               Inr (mintedAt', ''https://gateway.pinata.cloud/ipfs/'' @ ipfsCid')))"

text \<open>\<^verbatim>\<open>new NFT(nftData)\<close> with the \<^verbatim>\<open>nftData\<close> the controller builds
  (\<open>data\<close> holds its date and its image URL), and the validation that
  \<^verbatim>\<open>save\<close> starts with. The defaults of the schema fill
  \<^verbatim>\<open>networkChainId\<close> and \<^verbatim>\<open>status\<close>. The order of the failures in the list
  carries no meaning.\<close>

definition new_NFT ::
  "env \<Rightarrow> save_request \<Rightarrow> int option \<times> string \<Rightarrow> (string \<times> vfail) list + nft" where
  "new_NFT e r data =
     (let eventData = req_eventData r;
          rw = walletAddress_path (req_walletAddress r);
          rc = ipfsCid_path (req_ipfsCid r);
          rm = metadataUri_path (req_metadataUri r);
          rt = tokenId_path (req_tokenId r);
          ra = contractAddress_path (req_contractAddress r);
          rh = transactionHash_path (req_transactionHash r);
          rn = eventName_path
                 (if truthy (get_prop eventData ''eventName'')
                  then get_prop eventData ''eventName'' else JStr ''Onchain Summer Lagos'');
          rd = mintedAt_path (fst data);
          ri = imageUrl_path (snd data);
          ru = req_userAgent r;
          rp = req_ip r
      in case (rw, rc, rm, rt, ra, rh, rn, rd, ri) of
           (Inr w, Inr c, Inr m, Inr t, Inr a, Inr h, Inr n, Inr d, Inr i) \<Rightarrow>
             Inr \<lparr> walletAddress = w, ipfsCid = c, metadataUri = m, tokenId = t,
                   contractAddress = a, transactionHash = h, eventName = n, mintedAt = d,
                   networkChainId = 8453, imageUrl = i, status = Confirmed,
                   userAgent = ru, ipAddress = rp,
                   createdAt = now e, updatedAt = now e \<rparr>
         | _ \<Rightarrow>
             Inl (errs ''walletAddress'' rw @ errs ''ipfsCid'' rc @ errs ''metadataUri'' rm
                  @ errs ''tokenId'' rt @ errs ''contractAddress'' ra
                  @ errs ''transactionHash'' rh @ errs ''eventData.eventName'' rn
                  @ errs ''eventData.mintedAt'' rd @ errs ''imageUrl'' ri))"

text \<open>The \<^verbatim>\<open>pre('save')\<close> middleware.\<close>

definition pre_save :: "nft \<Rightarrow> nft" where
  "pre_save d =
     (let d1 = (if walletAddress d \<noteq> []
                then d\<lparr>walletAddress := toLowerCase (walletAddress d)\<rparr> else d);
          d2 = (if contractAddress d1 \<noteq> []
                then d1\<lparr>contractAddress := toLowerCase (contractAddress d1)\<rparr> else d1);
          d3 = (if transactionHash d2 \<noteq> []
                then d2\<lparr>transactionHash := toLowerCase (transactionHash d2)\<rparr> else d2)
      in d3)"

text \<open>The insert under the unique index on \<^verbatim>\<open>transactionHash\<close>: error 11000 on a
  duplicate.\<close>

definition insert_nft :: "nft \<Rightarrow> nft list \<Rightarrow> js_error + nft list" where
  "insert_nft d db =
     (if transactionHash d \<in> set (map transactionHash db) then Inl (MongoServerError 11000)
      else Inr (db @ [d]))"

section \<open>The controller: \<^verbatim>\<open>saveNFT\<close>\<close>

text \<open>The \<^verbatim>\<open>try\<close> block. A thrown error is \<open>Inl\<close>; the store and the trace are
  returned as they are when the block ends.\<close>

definition saveNFT_try ::
  "env \<Rightarrow> nft list \<Rightarrow> save_request
     \<Rightarrow> (js_error + save_content response) \<times> nft list \<times> store_op list" where
  "saveNFT_try e db r =
     (if \<not> truthy (req_walletAddress r) \<or> \<not> truthy (req_ipfsCid r)
         \<or> \<not> truthy (req_metadataUri r) \<or> \<not> truthy (req_tokenId r)
         \<or> \<not> truthy (req_contractAddress r) \<or> \<not> truthy (req_transactionHash r)
      then (Inr \<lparr> http_status = 400, success = False, message = Some ''Missing required fields'',
                   content = RequiredFields required_fields \<rparr>, db, [])
      else
        (case req_transactionHash r of
           JStr transactionHash' \<Rightarrow>
             (let key = toLowerCase transactionHash' in
              case findOne key db of
                Some existingNFT \<Rightarrow>
                  (Inr \<lparr> http_status = 409, success = False,
                         message = Some ''NFT already recorded'',
                         content = ExistingData existingNFT \<rparr>, db, [FindOne key])
              | None \<Rightarrow>
                  (case nftData e r of
                     Inl error \<Rightarrow> (Inl error, db, [FindOne key])
                   | Inr data \<Rightarrow>
                  (case new_NFT e r data of
                     Inl errors \<Rightarrow> (Inl (ValidationError errors), db, [FindOne key])
                   | Inr newNFT \<Rightarrow>
                       (let savedNFT = pre_save newNFT in
                        case insert_nft savedNFT db of
                          Inl err \<Rightarrow> (Inl err, db, [FindOne key, Insert savedNFT])
                        | Inr db' \<Rightarrow>
                            (case req_walletAddress r of
                               JStr walletAddress' \<Rightarrow>
                                 (let userNFTCount = getUserNFTCount db' walletAddress' in
                                  (Inr \<lparr> http_status = 201, success = True,
                                         message = Some ''NFT saved successfully'',
                                         content = SavedData savedNFT userNFTCount
                                                     (userNFTCount = 1) \<rparr>,
                                   db',
                                   [FindOne key, Insert savedNFT,
                                    CountDocuments (toLowerCase walletAddress')]))
                             | _ \<Rightarrow> (Inl TypeError, db', [FindOne key, Insert savedNFT]))))))
         | _ \<Rightarrow> (Inl TypeError, db, [])))"

text \<open>What the \<^verbatim>\<open>catch\<close> blocks read from an error.\<close>

fun error_name :: "js_error \<Rightarrow> string" where
  "error_name TypeError = ''TypeError''"
| "error_name (ValidationError errors) = ''ValidationError''"
| "error_name (MongoServerError code) = ''MongoServerError''"

fun error_errors :: "js_error \<Rightarrow> (string \<times> vfail) list" where
  "error_errors (ValidationError errors) = errors"
| "error_errors error = []"

fun error_code :: "js_error \<Rightarrow> int option" where
  "error_code (MongoServerError code) = Some code"
| "error_code error = None"

definition server_error_text :: "env \<Rightarrow> js_error \<Rightarrow> string" where
  "server_error_text e error =
     (if development e then error_message e error else ''Internal server error'')"

text \<open>The \<^verbatim>\<open>catch\<close> block.\<close>

definition saveNFT_catch :: "env \<Rightarrow> js_error \<Rightarrow> save_content response" where
  "saveNFT_catch e error =
     (if error_name error = ''ValidationError''
      then \<lparr> http_status = 400, success = False, message = Some ''Validation failed'',
             content = ValidationErrors (error_errors error) \<rparr>
      else if error_code error = Some 11000
      then \<lparr> http_status = 409, success = False,
             message = Some ''Duplicate transaction hash'',
             content = ErrorText ''This NFT has already been recorded'' \<rparr>
      else \<lparr> http_status = 500, success = False, message = Some ''Failed to save NFT'',
             content = ErrorText (server_error_text e error) \<rparr>)"

definition saveNFT ::
  "env \<Rightarrow> nft list \<Rightarrow> save_request \<Rightarrow> save_content response \<times> nft list \<times> store_op list" where
  "saveNFT e db r =
     (case saveNFT_try e db r of
        (Inr res, db', ops) \<Rightarrow> (res, db', ops)
      | (Inl error, db', ops) \<Rightarrow> (saveNFT_catch e error, db', ops))"

section \<open>The controller: \<^verbatim>\<open>getUserNFTs\<close>\<close>

definition is_space :: "char \<Rightarrow> bool" where
  "is_space c = (c \<in> set [CHR 0x09, CHR 0x0A, CHR 0x0B, CHR 0x0C, CHR 0x0D, CHR '' ''])"

definition digit_value :: "char \<Rightarrow> nat option" where
  "digit_value c =
     map_of (zip digit_chars [0 ..< 10] @ zip lower_chars [10 ..< 36]
             @ zip upper_chars [10 ..< 36]) c"

text \<open>The longest prefix of digits of the radix, read as a number; \<open>None\<close> when it is
  empty.\<close>

fun parse_digits :: "nat \<Rightarrow> int option \<Rightarrow> string \<Rightarrow> int option" where
  "parse_digits R acc [] = acc"
| "parse_digits R acc (c # cs) =
     (case digit_value c of
        None \<Rightarrow> acc
      | Some v \<Rightarrow>
          if v < R
          then parse_digits R (Some ((case acc of None \<Rightarrow> 0 | Some a \<Rightarrow> a * int R) + int v)) cs
          else acc)"

text \<open>\<^verbatim>\<open>parseInt\<close> of a string, with no radix; \<open>None\<close> is NaN. The result is the
  number the digits denote: the code has its nearest double, which is the same number up
  to \<open>2 ^ 53\<close> in magnitude.\<close>

definition parseInt_string :: "string \<Rightarrow> int option" where
  "parseInt_string str =
     (let s = dropWhile is_space str;
          sign = (if take 1 s = ''-'' then - 1 else 1);
          s1 = (if take 1 s = ''-'' \<or> take 1 s = ''+'' then drop 1 s else s);
          hex = (take 2 s1 = ''0x'' \<or> take 2 s1 = ''0X'');
          s2 = (if hex then drop 2 s1 else s1)
      in map_option (\<lambda>n. sign * n) (parse_digits (if hex then 16 else 10) None s2))"

text \<open>\<^verbatim>\<open>parseInt(v)\<close>: the value is converted to a string first, which can
  throw.\<close>

definition parseInt :: "jsval \<Rightarrow> js_error + int option" where
  "parseInt v =
     (case toString v of None \<Rightarrow> Inl TypeError | Some str \<Rightarrow> Inr (parseInt_string str))"

text \<open>\<^verbatim>\<open>parseInt(v) || d\<close>: NaN and zero are falsy.\<close>

definition parseInt_or :: "jsval \<Rightarrow> int \<Rightarrow> js_error + int" where
  "parseInt_or v d =
     (case parseInt v of
        Inl error \<Rightarrow> Inl error
      | Inr None \<Rightarrow> Inr d
      | Inr (Some n) \<Rightarrow> Inr (if n = 0 then d else n))"


text \<open>\<^verbatim>\<open>Math.ceil(a / b)\<close> for \<open>b \<noteq> 0\<close>, and \<^verbatim>\<open>Math.floor(a / b)\<close>.\<close>

definition math_ceil_div :: "int \<Rightarrow> int \<Rightarrow> int" where
  "math_ceil_div a b = - ((- a) div b)"

definition math_floor_div :: "int \<Rightarrow> int \<Rightarrow> int" where
  "math_floor_div a b = a div b"

text \<open>The route parameter, always a string, and the two query values: a string, an
  array or an object, or \<^verbatim>\<open>undefined\<close> when absent.\<close>

record list_request =
  param_walletAddress :: string
  query_page :: jsval
  query_limit :: jsval

record enriched_nft = nft +
  pinataImageUrl :: string
  blockExplorerUrl :: string
  daysAgo :: int

record pagination =
  currentPage :: int
  totalPages :: int
  totalCount :: int
  hasNextPage :: bool
  hasPrevPage :: bool
  limit :: int

record list_meta =
  meta_walletAddress :: string
  firstNFTDate :: "int option"
  latestNFTDate :: "int option"

datatype list_content =
    NoContent
  | ListData "enriched_nft list" pagination list_meta
  | ListError string

text \<open>\<^verbatim>\<open>.select('-userAgent -ipAddress')\<close>\<close>

definition select_public :: "nft \<Rightarrow> nft" where
  "select_public d = d\<lparr>userAgent := None, ipAddress := None\<rparr>"

text \<open>The query \<^verbatim>\<open>NFT.find({walletAddress, status: 'confirmed'}).sort({createdAt: -1})
  .skip(skip).limit(limit).select(...).lean()\<close>, for a skip and a limit that are safe
  integers. The server rejects a negative skip, reads a negative limit as its absolute
  value and a limit of zero as no limit. Documents with equal \<^verbatim>\<open>createdAt\<close> keep
  their insertion order.\<close>

definition nft_find :: "nft list \<Rightarrow> string \<Rightarrow> int \<Rightarrow> int \<Rightarrow> js_error + nft list" where
  "nft_find db walletAddress' skip limit' =
     (let matching = filter (\<lambda>d. walletAddress d = walletAddress' \<and> status d = Confirmed) db;
          ordered = sort_key (\<lambda>d. - createdAt d) matching;
          skipped = drop (nat skip) ordered;
          limited = (if limit' = 0 then skipped else take (nat \<bar>limit'\<bar>) skipped)
      in if skip < 0 then Inl (MongoServerError 51024) else Inr (map select_public limited))"

text \<open>The computed fields added to each returned document.\<close>

definition enrich :: "env \<Rightarrow> nft \<Rightarrow> enriched_nft" where
  "enrich e nft =
     nft.extend nft
       (enriched_nft.fields
          (''https://gateway.pinata.cloud/ipfs/'' @ ipfsCid nft)
          (if networkChainId nft = 8453 then ''https://basescan.org/tx/'' @ transactionHash nft
           else ''https://sepolia.basescan.org/tx/'' @ transactionHash nft)
          (math_floor_div (now e - mintedAt nft) (1000 * 60 * 60 * 24)))"

text \<open>The \<^verbatim>\<open>catch\<close> block of \<^verbatim>\<open>getUserNFTs\<close>.\<close>

definition getUserNFTs_catch :: "env \<Rightarrow> js_error \<Rightarrow> list_content response" where
  "getUserNFTs_catch e error =
     \<lparr> http_status = 500, success = False, message = Some ''Failed to fetch NFTs'',
       content = ListError (server_error_text e error) \<rparr>"

text \<open>The handler. The two \<^verbatim>\<open>parseInt\<close> calls come first, inside the
  \<^verbatim>\<open>try\<close>: when one throws, the \<^verbatim>\<open>catch\<close> answers before the address is
  looked at.\<close>

definition getUserNFTs ::
  "env \<Rightarrow> nft list \<Rightarrow> list_request \<Rightarrow> list_content response \<times> store_op list" where
  "getUserNFTs e db r =
     (case parseInt_or (query_page r) 1 of
        Inl error \<Rightarrow> (getUserNFTs_catch e error, [])
      | Inr page \<Rightarrow>
     (case parseInt_or (query_limit r) 10 of
        Inl error \<Rightarrow> (getUserNFTs_catch e error, [])
      | Inr limit' \<Rightarrow>
     (let walletAddress' = param_walletAddress r;
          skip = (page - 1) * limit'
      in if walletAddress' = [] \<or> \<not> address_pattern walletAddress'
         then (\<lparr> http_status = 400, success = False,
                  message = Some ''Invalid wallet address format'', content = NoContent \<rparr>, [])
         else
           (case nft_find db (toLowerCase walletAddress') skip limit' of
              Inl error \<Rightarrow>
                (getUserNFTs_catch e error, [Find (toLowerCase walletAddress') skip limit'])
            | Inr nfts \<Rightarrow>
                (let totalCount' = getUserNFTCount db walletAddress';
                     totalPages' = math_ceil_div totalCount' limit';
                     enrichedNFTs = map (enrich e) nfts
                 in (\<lparr> http_status = 200, success = True, message = None,
                        content = ListData enrichedNFTs
                          \<lparr> currentPage = page, totalPages = totalPages',
                            totalCount = totalCount', hasNextPage = (page < totalPages'),
                            hasPrevPage = (page > 1), limit = limit' \<rparr>
                          \<lparr> meta_walletAddress = toLowerCase walletAddress',
                            firstNFTDate = (if enrichedNFTs \<noteq> []
                                            then Some (mintedAt (last enrichedNFTs)) else None),
                            latestNFTDate = (if enrichedNFTs \<noteq> []
                                             then Some (mintedAt (hd enrichedNFTs)) else None) \<rparr> \<rparr>,
                     [Find (toLowerCase walletAddress') skip limit',
                      CountDocuments (toLowerCase walletAddress')]))))))"

section \<open>Event statistics\<close>

text \<open>The accumulators of one \<^verbatim>\<open>$group\<close> bucket.\<close>

record group_acc =
  g_id :: string
  g_totalMints :: int
  g_uniqueUsers :: "string list"
  g_firstMint :: int
  g_lastMint :: int

text \<open>One output document of the pipeline, after \<^verbatim>\<open>$project\<close>.\<close>

record event_stat =
  stat_id :: string
  stat_eventName :: string
  totalMints :: int
  uniqueUserCount :: int
  firstMint :: int
  lastMint :: int

text \<open>\<^verbatim>\<open>$sum: 1\<close>, \<^verbatim>\<open>$addToSet\<close>, \<^verbatim>\<open>$min\<close> and \<^verbatim>\<open>$max\<close> for one
  more document of a bucket.\<close>

definition group_add :: "nft \<Rightarrow> group_acc \<Rightarrow> group_acc" where
  "group_add d g =
     g\<lparr> g_totalMints := g_totalMints g + 1,
        g_uniqueUsers := (if walletAddress d \<in> set (g_uniqueUsers g) then g_uniqueUsers g
                          else g_uniqueUsers g @ [walletAddress d]),
        g_firstMint := min (g_firstMint g) (mintedAt d),
        g_lastMint := max (g_lastMint g) (mintedAt d) \<rparr>"

definition group_new :: "nft \<Rightarrow> group_acc" where
  "group_new d =
     \<lparr> g_id = eventName d, g_totalMints = 1, g_uniqueUsers = [walletAddress d],
       g_firstMint = mintedAt d, g_lastMint = mintedAt d \<rparr>"

text \<open>A document goes to the bucket of its \<^verbatim>\<open>eventData.eventName\<close>, or opens one.\<close>

fun group_step :: "nft \<Rightarrow> group_acc list \<Rightarrow> group_acc list" where
  "group_step d [] = [group_new d]"
| "group_step d (g # gs) =
     (if g_id g = eventName d then group_add d g # gs else g # group_step d gs)"

definition group_stage :: "nft list \<Rightarrow> group_acc list" where
  "group_stage docs = foldl (\<lambda>gs d. group_step d gs) [] docs"

definition project_stage :: "group_acc \<Rightarrow> event_stat" where
  "project_stage g =
     \<lparr> stat_id = g_id g, stat_eventName = g_id g, totalMints = g_totalMints g,
       uniqueUserCount = int (length (g_uniqueUsers g)),
       firstMint = g_firstMint g, lastMint = g_lastMint g \<rparr>"

text \<open>The statics \<^verbatim>\<open>getEventStats\<close> of the schema: \<^verbatim>\<open>$match\<close>,
  \<^verbatim>\<open>$group\<close>, \<^verbatim>\<open>$project\<close>. The buckets come in the order of their first
  document.\<close>

definition NFT_getEventStats :: "nft list \<Rightarrow> event_stat list" where
  "NFT_getEventStats db =
     map project_stage (group_stage (filter (\<lambda>d. status d = Confirmed) db))"

record total_stats =
  sum_totalMints :: int
  totalUniqueUsers :: int
  events :: "event_stat list"

text \<open>The controller \<^verbatim>\<open>getEventStats\<close>; the response carries the time as its
  \<^verbatim>\<open>timestamp\<close>.\<close>

definition getEventStats ::
  "env \<Rightarrow> nft list \<Rightarrow> (total_stats \<times> int) response \<times> store_op list" where
  "getEventStats e db =
     (let stats = NFT_getEventStats db;
          totalStats = \<lparr> sum_totalMints = 0, totalUniqueUsers = 0, events = stats \<rparr>;
          totalStats' =
            foldl (\<lambda>t event. t\<lparr> sum_totalMints := sum_totalMints t + totalMints event,
                                 totalUniqueUsers := totalUniqueUsers t + uniqueUserCount event \<rparr>)
              totalStats stats
      in (\<lparr> http_status = 200, success = True, message = None,
             content = (totalStats', now e) \<rparr>, [Aggregate]))"

text \<open>The values of the six required fields of a request, in the order of
  \<open>required_fields\<close>.\<close>

definition required_values :: "save_request \<Rightarrow> jsval list" where
  "required_values r =
     [req_walletAddress r, req_ipfsCid r, req_metadataUri r, req_tokenId r,
      req_contractAddress r, req_transactionHash r]"

section \<open>Example inputs\<close>

definition ex_env :: env where
  "ex_env = \<lparr> now = 1700000000000, development = False,
              error_message = (\<lambda>error. error_name error), date_parse = (\<lambda>s. None) \<rparr>"

definition ex_wallet :: string where
  "ex_wallet = ''0xAbCdEf0123456789aBcDeF0123456789abcdef01''"

text \<open>The same address with an uppercase prefix.\<close>

definition ex_wallet_0X :: string where
  "ex_wallet_0X = ''0XAbCdEf0123456789aBcDeF0123456789abcdef01''"

definition ex_hash :: string where
  "ex_hash = ''0xABCDEF0123456789abcdef0123456789ABCDEF0123456789abcdef0123456789''"

definition ex_cid :: string where
  "ex_cid = ''QmYwAPJzv5CZsnA625s3Xf2nemtYgPpHdWEz79ojWnPbdG''"

definition ex_request :: save_request where
  "ex_request =
     \<lparr> req_walletAddress = JStr ex_wallet, req_ipfsCid = JStr ex_cid,
       req_metadataUri = JStr (''ipfs://'' @ ex_cid), req_tokenId = JStr ''7'',
       req_contractAddress = JStr ex_wallet, req_transactionHash = JStr ex_hash,
       req_eventData = JUndefined, req_userAgent = Some ''curl'', req_ip = None \<rparr>"

text \<open>The document that \<open>ex_request\<close> stores.\<close>

definition ex_doc :: nft where
  "ex_doc =
     \<lparr> walletAddress = ''0xabcdef0123456789abcdef0123456789abcdef01'', ipfsCid = ex_cid,
       metadataUri = ''ipfs://'' @ ex_cid, tokenId = ''7'',
       contractAddress = ''0xabcdef0123456789abcdef0123456789abcdef01'',
       transactionHash =
         ''0xabcdef0123456789abcdef0123456789abcdef0123456789abcdef0123456789'',
       eventName = ''Onchain Summer Lagos'', mintedAt = 1700000000000,
       networkChainId = 8453,
       imageUrl = Some (''https://gateway.pinata.cloud/ipfs/'' @ ex_cid),
       status = Confirmed, userAgent = Some ''curl'', ipAddress = None,
       createdAt = 1700000000000, updatedAt = 1700000000000 \<rparr>"

text \<open>A store with a pending and a failed record around the confirmed one.\<close>

definition ex_pending :: nft where
  "ex_pending = ex_doc\<lparr> status := Pending, transactionHash := ''0x01'', eventName := ''B'' \<rparr>"

definition ex_failed :: nft where
  "ex_failed = ex_doc\<lparr> status := Failed, transactionHash := ''0x02'' \<rparr>"

definition ex_store_mixed :: "nft list" where
  "ex_store_mixed = [ex_pending, ex_doc, ex_failed]"

text \<open>A read three days and five seconds after the mint of \<open>ex_doc\<close>.\<close>

definition ex_env_later :: env where
  "ex_env_later = ex_env\<lparr> now := 1700259205000 \<rparr>"

definition ex_list_request :: list_request where
  "ex_list_request =
     \<lparr> param_walletAddress = ex_wallet, query_page = JUndefined, query_limit = JUndefined \<rparr>"

definition ex_enriched :: enriched_nft where
  "ex_enriched = enrich ex_env_later (select_public ex_doc)"



text \<open>Three confirmed mints of event A by two owners, one of event B, and a pending one.\<close>

definition ex_store_events :: "nft list" where
  "ex_store_events =
     [ex_doc\<lparr> eventName := ''A'', walletAddress := ''0x01'' \<rparr>,
      ex_doc\<lparr> eventName := ''B'', walletAddress := ''0x01'' \<rparr>,
      ex_doc\<lparr> eventName := ''A'', walletAddress := ''0x02'' \<rparr>,
      ex_doc\<lparr> eventName := ''A'', walletAddress := ''0x03'', status := Pending \<rparr>,
      ex_doc\<lparr> eventName := ''A'', walletAddress := ''0x01'' \<rparr>]"

text \<open>The documents of one event, and what a bucket must hold for them.\<close>

definition of_event :: "string \<Rightarrow> nft list \<Rightarrow> nft list" where
  "of_event k ds = filter (\<lambda>d. eventName d = k) ds"

definition bucket_ok :: "nft list \<Rightarrow> group_acc \<Rightarrow> bool" where
  "bucket_ok ds g =
     (g_totalMints g = int (length (of_event (g_id g) ds))
      \<and> distinct (g_uniqueUsers g)
      \<and> set (g_uniqueUsers g) = set (map walletAddress (of_event (g_id g) ds)))"

section \<open>The required-field check of \<^verbatim>\<open>saveNFT\<close>\<close>

lemma saveNFT_not_truthy:
  assumes "v \<in> set (required_values r)" and "\<not> truthy v"
  shows "saveNFT e db r =
           (\<lparr> http_status = 400, success = False, message = Some ''Missing required fields'',
              content = RequiredFields required_fields \<rparr>, db, [])"
  using assms by (auto simp add: saveNFT_def saveNFT_try_def required_values_def)

text \<open>
  C9. A required field that is present but falsy (the empty string, 0, false or null) is
  treated as missing: the request is rejected with status 400 and the message
  "Missing required fields", the store is returned unchanged and no store operation is
  issued.
\<close>

theorem saveNFT_falsy_field_is_missing:
  assumes "v \<in> set (required_values r)"
    and "v \<in> {JStr [], JNum 0, JBool False, JNull}"
  shows "saveNFT e db r =
           (\<lparr> http_status = 400, success = False, message = Some ''Missing required fields'',
              content = RequiredFields
                [''walletAddress'', ''ipfsCid'', ''metadataUri'', ''tokenId'',
                 ''contractAddress'', ''transactionHash''] \<rparr>, db, [])"
proof -
  from assms(2) have "\<not> truthy v" by auto
  with assms(1) show ?thesis
    by (simp add: saveNFT_not_truthy required_fields_def)
qed

theorem saveNFT_falsy_field_is_missing_witness:
  "JStr [] \<in> set (required_values (ex_request\<lparr>req_tokenId := JStr []\<rparr>))
   \<and> JStr [] \<in> {JStr [], JNum 0, JBool False, JNull}
   \<and> saveNFT ex_env [ex_doc] (ex_request\<lparr>req_tokenId := JStr []\<rparr>) =
       (\<lparr> http_status = 400, success = False, message = Some ''Missing required fields'',
          content = RequiredFields
            [''walletAddress'', ''ipfsCid'', ''metadataUri'', ''tokenId'',
             ''contractAddress'', ''transactionHash''] \<rparr>, [ex_doc], [])"
proof -
  have a: "JStr [] \<in> set (required_values (ex_request\<lparr>req_tokenId := JStr []\<rparr>))"
    by (simp add: required_values_def)
  have b: "JStr [] \<in> {JStr [], JNum 0, JBool False, JNull}" by simp
  from saveNFT_falsy_field_is_missing [OF a b, of ex_env "[ex_doc]"] a b
  show ?thesis by blast
qed

text \<open>
  C2, as the code has it. When any of the six required fields is absent, the request is
  rejected with status 400 and "Missing required fields"; the list in the response is
  always the full list of the six required names, whichever of them are absent; the
  store is returned unchanged and no store operation is issued.
\<close>

theorem saveNFT_missing_lists_all_required:
  assumes "JUndefined \<in> set (required_values r)"
  shows "saveNFT e db r =
           (\<lparr> http_status = 400, success = False, message = Some ''Missing required fields'',
              content = RequiredFields
                [''walletAddress'', ''ipfsCid'', ''metadataUri'', ''tokenId'',
                 ''contractAddress'', ''transactionHash''] \<rparr>, db, [])"
  using assms by (simp add: saveNFT_not_truthy [of JUndefined] required_fields_def)

theorem saveNFT_missing_lists_all_required_witness:
  "JUndefined \<in> set (required_values (ex_request\<lparr>req_walletAddress := JUndefined\<rparr>))
   \<and> saveNFT ex_env [ex_doc] (ex_request\<lparr>req_walletAddress := JUndefined\<rparr>) =
       (\<lparr> http_status = 400, success = False, message = Some ''Missing required fields'',
          content = RequiredFields
            [''walletAddress'', ''ipfsCid'', ''metadataUri'', ''tokenId'',
             ''contractAddress'', ''transactionHash''] \<rparr>, [ex_doc], [])"
proof -
  have a: "JUndefined \<in> set (required_values (ex_request\<lparr>req_walletAddress := JUndefined\<rparr>))"
    by (simp add: required_values_def)
  from saveNFT_missing_lists_all_required [OF a, of ex_env "[ex_doc]"] a
  show ?thesis by blast
qed

text \<open>
  C2 as stated fails: with only \<^verbatim>\<open>walletAddress\<close> absent, the reported list is
  not the list of the absent fields.
\<close>

theorem saveNFT_missing_fields_counterexample:
  "req_walletAddress (ex_request\<lparr>req_walletAddress := JUndefined\<rparr>) = JUndefined
   \<and> req_ipfsCid (ex_request\<lparr>req_walletAddress := JUndefined\<rparr>) \<noteq> JUndefined
   \<and> req_metadataUri (ex_request\<lparr>req_walletAddress := JUndefined\<rparr>) \<noteq> JUndefined
   \<and> req_tokenId (ex_request\<lparr>req_walletAddress := JUndefined\<rparr>) \<noteq> JUndefined
   \<and> req_contractAddress (ex_request\<lparr>req_walletAddress := JUndefined\<rparr>) \<noteq> JUndefined
   \<and> req_transactionHash (ex_request\<lparr>req_walletAddress := JUndefined\<rparr>) \<noteq> JUndefined
   \<and> content (fst (saveNFT ex_env [] (ex_request\<lparr>req_walletAddress := JUndefined\<rparr>)))
       = RequiredFields
           [''walletAddress'', ''ipfsCid'', ''metadataUri'', ''tokenId'', ''contractAddress'',
            ''transactionHash'']
   \<and> content (fst (saveNFT ex_env [] (ex_request\<lparr>req_walletAddress := JUndefined\<rparr>)))
       \<noteq> RequiredFields [''walletAddress'']"
  by (simp add: saveNFT_def saveNFT_try_def required_fields_def ex_request_def)

section \<open>A non-string \<^verbatim>\<open>transactionHash\<close>\<close>

lemma saveNFT_not_string:
  assumes "list_all truthy (required_values r)" and "\<forall>s. req_transactionHash r \<noteq> JStr s"
  shows "saveNFT e db r =
           (\<lparr> http_status = 500, success = False, message = Some ''Failed to save NFT'',
              content = ErrorText (if development e then error_message e TypeError
                                   else ''Internal server error'') \<rparr>, db, [])"
  using assms
  by (cases "req_transactionHash r")
     (simp_all add: saveNFT_def saveNFT_try_def required_values_def saveNFT_catch_def
        server_error_text_def)

text \<open>
  C10, as the code has it. When all six required fields are truthy and
  \<^verbatim>\<open>transactionHash\<close> is not a string, the call of \<^verbatim>\<open>toLowerCase\<close> in the
  duplicate pre-check throws a TypeError; the \<^verbatim>\<open>catch\<close> block answers with status
  500 and "Failed to save NFT", not with a 400; the store is returned unchanged and no
  store operation is issued.
\<close>

theorem saveNFT_non_string_hash_is_500:
  assumes "list_all truthy (required_values r)" and "\<forall>s. req_transactionHash r \<noteq> JStr s"
  shows "saveNFT e db r =
           (\<lparr> http_status = 500, success = False, message = Some ''Failed to save NFT'',
              content = ErrorText (if development e then error_message e TypeError
                                   else ''Internal server error'') \<rparr>, db, [])
         \<and> saveNFT_try e db r = (Inl TypeError, db, [])"
proof -
  from assms have "saveNFT_try e db r = (Inl TypeError, db, [])"
    by (cases "req_transactionHash r") (simp_all add: saveNFT_try_def required_values_def)
  with saveNFT_not_string [OF assms] show ?thesis by simp
qed

theorem saveNFT_non_string_hash_is_500_witness:
  "list_all truthy (required_values (ex_request\<lparr>req_transactionHash := JNum 12345\<rparr>))
   \<and> (\<forall>s. req_transactionHash (ex_request\<lparr>req_transactionHash := JNum 12345\<rparr>) \<noteq> JStr s)
   \<and> saveNFT ex_env [ex_doc] (ex_request\<lparr>req_transactionHash := JNum 12345\<rparr>) =
       (\<lparr> http_status = 500, success = False, message = Some ''Failed to save NFT'',
          content = ErrorText ''Internal server error'' \<rparr>, [ex_doc], [])"
proof -
  have a: "list_all truthy (required_values (ex_request\<lparr>req_transactionHash := JNum 12345\<rparr>))"
    by (simp add: required_values_def ex_request_def ex_wallet_def ex_cid_def)
  have b: "\<forall>s. req_transactionHash (ex_request\<lparr>req_transactionHash := JNum 12345\<rparr>) \<noteq> JStr s"
    by simp
  from saveNFT_non_string_hash_is_500 [OF a b, of ex_env "[ex_doc]"] a b
  show ?thesis by (simp add: ex_env_def)
qed

text \<open>
  C10 as stated fails: a truthy number as \<^verbatim>\<open>transactionHash\<close> with
  \<^verbatim>\<open>walletAddress\<close> absent is answered with the 400 of the required-field check.
\<close>

theorem saveNFT_non_string_hash_counterexample:
  "truthy (req_transactionHash
             (ex_request\<lparr>req_transactionHash := JNum 12345, req_walletAddress := JUndefined\<rparr>))
   \<and> req_transactionHash
         (ex_request\<lparr>req_transactionHash := JNum 12345, req_walletAddress := JUndefined\<rparr>)
       = JNum 12345
   \<and> saveNFT ex_env []
         (ex_request\<lparr>req_transactionHash := JNum 12345, req_walletAddress := JUndefined\<rparr>) =
       (\<lparr> http_status = 400, success = False, message = Some ''Missing required fields'',
          content = RequiredFields required_fields \<rparr>, [], [])"
  by (simp add: saveNFT_def saveNFT_try_def ex_request_def)

section \<open>A duplicate \<^verbatim>\<open>transactionHash\<close>\<close>

lemma saveNFT_try_precheck:
  assumes "list_all truthy (required_values r)" and "req_transactionHash r = JStr h"
    and "findOne (toLowerCase h) db = Some x"
  shows "saveNFT e db r =
           (\<lparr> http_status = 409, success = False, message = Some ''NFT already recorded'',
              content = ExistingData x \<rparr>, db, [FindOne (toLowerCase h)])"
  using assms by (simp add: saveNFT_def saveNFT_try_def required_values_def)

lemma findOne_present:
  assumes "d \<in> set db" and "transactionHash d = h"
  shows "\<exists>x. findOne h db = Some x \<and> x \<in> set db \<and> transactionHash x = h
             \<and> (distinct (map transactionHash db) \<longrightarrow> x = d)"
proof -
  from assms have "find (\<lambda>d. transactionHash d = h) db \<noteq> None"
    by (auto simp add: find_None_iff)
  then obtain x where x: "find (\<lambda>d. transactionHash d = h) db = Some x" by blast
  then have mem: "x \<in> set db" and hx: "transactionHash x = h"
    by (auto simp add: find_Some_iff)
  have "x = d" if "distinct (map transactionHash db)"
  proof -
    from that have "inj_on transactionHash (set db)" by (simp add: distinct_map)
    with mem hx assms show ?thesis by (auto dest: inj_onD)
  qed
  with x mem hx show ?thesis by (auto simp add: findOne_def)
qed

text \<open>
  C1, as the code has it. When the six required fields are truthy (as in every valid
  payload) and the store holds a record whose \<^verbatim>\<open>transactionHash\<close> is the lowercased
  hash of the request, the handler answers with status 409, \<^verbatim>\<open>success: false\<close> and
  "NFT already recorded", carrying the stored record with that hash as \<^verbatim>\<open>data\<close>
  (the record itself when hashes are unique in the store); the store is returned
  unchanged and the only store operation is the lookup.
\<close>

theorem saveNFT_duplicate_is_conflict:
  assumes "list_all truthy (required_values r)" and "req_transactionHash r = JStr h"
    and "d \<in> set db" and "transactionHash d = toLowerCase h"
  shows "\<exists>existing. existing \<in> set db \<and> transactionHash existing = toLowerCase h
           \<and> (distinct (map transactionHash db) \<longrightarrow> existing = d)
           \<and> saveNFT e db r =
               (\<lparr> http_status = 409, success = False, message = Some ''NFT already recorded'',
                  content = ExistingData existing \<rparr>, db, [FindOne (toLowerCase h)])"
proof -
  from findOne_present [OF assms(3,4)] obtain x where
    "findOne (toLowerCase h) db = Some x" "x \<in> set db" "transactionHash x = toLowerCase h"
    "distinct (map transactionHash db) \<longrightarrow> x = d" by blast
  with saveNFT_try_precheck [OF assms(1,2), of db x e] show ?thesis by blast
qed

lemma toLowerCase_ex_hash: "toLowerCase ex_hash = transactionHash ex_doc"
  by (simp add: toLowerCase_def ex_hash_def ex_doc_def lower_char_def upper_chars_def
      lower_chars_def)

theorem saveNFT_duplicate_is_conflict_witness:
  "list_all truthy (required_values ex_request) \<and> req_transactionHash ex_request = JStr ex_hash
   \<and> ex_doc \<in> set [ex_doc] \<and> transactionHash ex_doc = toLowerCase ex_hash
   \<and> saveNFT ex_env [ex_doc] ex_request =
       (\<lparr> http_status = 409, success = False, message = Some ''NFT already recorded'',
          content = ExistingData ex_doc \<rparr>, [ex_doc], [FindOne (toLowerCase ex_hash)])"
proof -
  have a: "list_all truthy (required_values ex_request)"
    by (simp add: required_values_def ex_request_def ex_wallet_def ex_cid_def ex_hash_def)
  have b: "req_transactionHash ex_request = JStr ex_hash" by (simp add: ex_request_def)
  have c: "ex_doc \<in> set [ex_doc]" by simp
  have d: "transactionHash ex_doc = toLowerCase ex_hash" by (simp add: toLowerCase_ex_hash)
  from saveNFT_duplicate_is_conflict [OF a b c d, of ex_env] a b d
  show ?thesis by auto
qed

text \<open>
  C1 as stated fails: the payload that is accepted on the empty store is answered, once
  its record is stored, with status 409 and \<^verbatim>\<open>success: false\<close>.
\<close>

theorem saveNFT_duplicate_counterexample:
  "saveNFT ex_env [] ex_request =
     (\<lparr> http_status = 201, success = True, message = Some ''NFT saved successfully'',
        content = SavedData ex_doc 1 True \<rparr>, [ex_doc],
      [FindOne (transactionHash ex_doc), Insert ex_doc, CountDocuments (walletAddress ex_doc)])
   \<and> http_status (fst (saveNFT ex_env [ex_doc] ex_request)) = 409
   \<and> success (fst (saveNFT ex_env [ex_doc] ex_request)) = False
   \<and> content (fst (saveNFT ex_env [ex_doc] ex_request)) = ExistingData ex_doc"
  by code_simp

section \<open>A malformed owner address\<close>

lemma hex_pattern_iff:
  "hex_pattern n s \<longleftrightarrow> (\<exists>hs. s = ''0x'' @ hs \<and> length hs = n \<and> list_all is_hex hs)"
proof
  assume h: "hex_pattern n s"
  have "s = take 2 s @ drop 2 s" by simp
  with h have "s = ''0x'' @ drop 2 s" by (simp add: hex_pattern_def)
  moreover from h have "length (drop 2 s) = n \<and> list_all is_hex (drop 2 s)"
    by (simp add: hex_pattern_def)
  ultimately show "\<exists>hs. s = ''0x'' @ hs \<and> length hs = n \<and> list_all is_hex hs" by blast
next
  assume "\<exists>hs. s = ''0x'' @ hs \<and> length hs = n \<and> list_all is_hex hs"
  then obtain hs where "s = ''0x'' @ hs" "length hs = n" "list_all is_hex hs" by blast
  then show "hex_pattern n s"
    by (simp add: hex_pattern_def)
qed

lemma parseInt_or_converts:
  assumes "toString v \<noteq> None"
  shows "\<exists>n. parseInt_or v d = Inr n"
  using assms by (auto simp add: parseInt_or_def parseInt_def split: option.splits)

lemma getUserNFTs_malformed_no_store:
  assumes "\<not> address_pattern (param_walletAddress r)"
  shows "snd (getUserNFTs e db r) = []"
  using assms by (simp add: getUserNFTs_def Let_def split: sum.splits)

lemma getUserNFTs_malformed_400:
  assumes "\<not> address_pattern (param_walletAddress r)"
    and "parseInt_or (query_page r) 1 = Inr page" and "parseInt_or (query_limit r) 10 = Inr n"
  shows "getUserNFTs e db r =
           (\<lparr> http_status = 400, success = False,
              message = Some ''Invalid wallet address format'', content = NoContent \<rparr>, [])"
  using assms by (simp add: getUserNFTs_def Let_def)

text \<open>
  C7, as the code has it. When the owner address is not \<^verbatim>\<open>0x\<close> followed by exactly
  40 hexadecimal characters, the handler issues no store operation, whatever the query;
  and when the \<^verbatim>\<open>page\<close> and \<^verbatim>\<open>limit\<close> query values convert to strings (as every
  string and every absent value does), it answers with status 400 and
  "Invalid wallet address format".
\<close>

theorem getUserNFTs_malformed_address:
  assumes "\<not> (\<exists>hs. param_walletAddress r = ''0x'' @ hs \<and> length hs = 40 \<and> list_all is_hex hs)"
  shows "snd (getUserNFTs e db r) = []
         \<and> (toString (query_page r) \<noteq> None \<and> toString (query_limit r) \<noteq> None \<longrightarrow>
              getUserNFTs e db r =
                (\<lparr> http_status = 400, success = False,
                   message = Some ''Invalid wallet address format'', content = NoContent \<rparr>,
                 []))"
proof -
  from assms have a: "\<not> address_pattern (param_walletAddress r)"
    by (simp add: address_pattern_def hex_pattern_iff)
  have "getUserNFTs e db r =
                (\<lparr> http_status = 400, success = False,
                   message = Some ''Invalid wallet address format'', content = NoContent \<rparr>,
                 [])"
    if "toString (query_page r) \<noteq> None" and "toString (query_limit r) \<noteq> None"
  proof -
    from that obtain page n where "parseInt_or (query_page r) 1 = Inr page"
      and "parseInt_or (query_limit r) 10 = Inr n"
      using parseInt_or_converts by blast
    with a show ?thesis by (rule getUserNFTs_malformed_400)
  qed
  with getUserNFTs_malformed_no_store [OF a] show ?thesis by blast
qed

theorem getUserNFTs_malformed_address_witness:
  "\<not> (\<exists>hs. param_walletAddress
              \<lparr> param_walletAddress = ''not-an-address'', query_page = JStr ''2'',
                query_limit = JUndefined \<rparr> = ''0x'' @ hs
            \<and> length hs = 40 \<and> list_all is_hex hs)
   \<and> toString (query_page
         \<lparr> param_walletAddress = ''not-an-address'', query_page = JStr ''2'',
           query_limit = JUndefined \<rparr>) \<noteq> None
   \<and> toString (query_limit
         \<lparr> param_walletAddress = ''not-an-address'', query_page = JStr ''2'',
           query_limit = JUndefined \<rparr>) \<noteq> None
   \<and> getUserNFTs ex_env [ex_doc]
        \<lparr> param_walletAddress = ''not-an-address'', query_page = JStr ''2'',
          query_limit = JUndefined \<rparr> =
       (\<lparr> http_status = 400, success = False,
          message = Some ''Invalid wallet address format'', content = NoContent \<rparr>, [])"
proof -
  let ?r = "\<lparr> param_walletAddress = ''not-an-address'', query_page = JStr ''2'',
             query_limit = JUndefined \<rparr>"
  have a: "\<not> (\<exists>hs. param_walletAddress ?r = ''0x'' @ hs
            \<and> length hs = 40 \<and> list_all is_hex hs)"
    by simp
  have b: "toString (query_page ?r) \<noteq> None \<and> toString (query_limit ?r) \<noteq> None" by simp
  from getUserNFTs_malformed_address [OF a, of ex_env "[ex_doc]", THEN conjunct2, rule_format,
         OF b] a b
  show ?thesis by (simp only: simp_thms)
qed

text \<open>
  C7 as stated fails: for a malformed address with the query
  \<^verbatim>\<open>?page[toString]=x\<close>, \<^verbatim>\<open>parseInt\<close> throws before the address is tested
  and the handler answers 500.
\<close>

theorem getUserNFTs_malformed_address_counterexample:
  "getUserNFTs ex_env [ex_doc]
     \<lparr> param_walletAddress = ''not-an-address'',
       query_page = JObj [(''toString'', JStr ''x'')], query_limit = JUndefined \<rparr> =
     (\<lparr> http_status = 500, success = False, message = Some ''Failed to fetch NFTs'',
        content = ListError ''Internal server error'' \<rparr>, [])"
  by (simp add: getUserNFTs_def getUserNFTs_catch_def parseInt_or_def parseInt_def
      server_error_text_def ex_env_def)

section \<open>Only confirmed records are read\<close>

lemma filter_confirmed_twice:
  "filter (\<lambda>d. P d \<and> status d = Confirmed) (filter (\<lambda>d. status d = Confirmed) db)
     = filter (\<lambda>d. P d \<and> status d = Confirmed) db"
  by (induction db) auto

lemma getUserNFTCount_confirmed:
  "getUserNFTCount (filter (\<lambda>d. status d = Confirmed) db) w = getUserNFTCount db w"
  by (simp only: getUserNFTCount_def filter_confirmed_twice)

lemma nft_find_confirmed:
  "nft_find (filter (\<lambda>d. status d = Confirmed) db) w skip n = nft_find db w skip n"
  by (simp only: nft_find_def filter_confirmed_twice)

lemma nft_find_subset:
  assumes "nft_find db w skip n = Inr nfts" and "x \<in> set nfts"
  shows "\<exists>d\<in>set db. x = select_public d \<and> walletAddress d = w \<and> status d = Confirmed"
proof -
  let ?m = "filter (\<lambda>d. walletAddress d = w \<and> status d = Confirmed) db"
  let ?s = "drop (nat skip) (sort_key (\<lambda>d. - createdAt d) ?m)"
  from assms(1) have "nfts = map select_public (if n = 0 then ?s else take (nat \<bar>n\<bar>) ?s)"
    by (simp add: nft_find_def Let_def split: if_splits)
  with assms(2) obtain d where d: "x = select_public d"
    and "d \<in> set (if n = 0 then ?s else take (nat \<bar>n\<bar>) ?s)" by auto
  then have "d \<in> set ?s" by (auto split: if_splits dest: in_set_takeD)
  then have "d \<in> set (sort_key (\<lambda>d. - createdAt d) ?m)" by (rule in_set_dropD)
  then have "d \<in> set ?m" by simp
  with d show ?thesis by auto
qed

lemma getUserNFTs_confirmed:
  "getUserNFTs e (filter (\<lambda>d. status d = Confirmed) db) r = getUserNFTs e db r"
  by (simp only: getUserNFTs_def nft_find_confirmed getUserNFTCount_confirmed)

lemma NFT_getEventStats_confirmed:
  "NFT_getEventStats (filter (\<lambda>d. status d = Confirmed) db) = NFT_getEventStats db"
  by (simp only: NFT_getEventStats_def filter_filter conj_absorb)

lemma getEventStats_confirmed:
  "getEventStats e (filter (\<lambda>d. status d = Confirmed) db) = getEventStats e db"
  by (simp only: getEventStats_def NFT_getEventStats_confirmed)

text \<open>
  C4. Records whose status is not "confirmed" contribute to none of the read operations:
  the count by owner, the paginated find by owner and the event statistics give the same
  result on a store as on its confirmed records alone, and so do the two handlers that
  call them; every record the find returns is confirmed.
\<close>

theorem non_confirmed_records_excluded:
  "getUserNFTCount (filter (\<lambda>d. status d = Confirmed) db) w = getUserNFTCount db w
   \<and> nft_find (filter (\<lambda>d. status d = Confirmed) db) w skip n = nft_find db w skip n
   \<and> (\<forall>nfts. nft_find db w skip n = Inr nfts \<longrightarrow> list_all (\<lambda>d. status d = Confirmed) nfts)
   \<and> NFT_getEventStats (filter (\<lambda>d. status d = Confirmed) db) = NFT_getEventStats db
   \<and> getUserNFTs e (filter (\<lambda>d. status d = Confirmed) db) r = getUserNFTs e db r
   \<and> getEventStats e (filter (\<lambda>d. status d = Confirmed) db) = getEventStats e db"
proof -
  have "list_all (\<lambda>d. status d = Confirmed) nfts" if "nft_find db w skip n = Inr nfts" for nfts
    using nft_find_subset [OF that] by (fastforce simp add: list_all_iff select_public_def)
  then show ?thesis
    by (simp add: getUserNFTCount_confirmed nft_find_confirmed NFT_getEventStats_confirmed
        getUserNFTs_confirmed getEventStats_confirmed)
qed

lemma filter_ex_store_mixed: "filter (\<lambda>d. status d = Confirmed) ex_store_mixed = [ex_doc]"
  by (simp add: ex_store_mixed_def ex_pending_def ex_failed_def ex_doc_def)

lemma read_ex_doc:
  "getUserNFTCount [ex_doc] (walletAddress ex_doc) = 1"
  "nft_find [ex_doc] (walletAddress ex_doc) 0 10 = Inr [select_public ex_doc]"
  "map totalMints (NFT_getEventStats [ex_doc]) = [1]"
  by code_simp+

theorem non_confirmed_records_excluded_witness:
  "getUserNFTCount ex_store_mixed (walletAddress ex_doc) = 1
   \<and> nft_find ex_store_mixed (walletAddress ex_doc) 0 10 = Inr [select_public ex_doc]
   \<and> list_all (\<lambda>d. status d = Confirmed) [select_public ex_doc]
   \<and> map totalMints (NFT_getEventStats ex_store_mixed) = [1]"
proof -
  note t = non_confirmed_records_excluded
             [of ex_store_mixed "walletAddress ex_doc" 0 10 ex_env ex_list_request,
              unfolded filter_ex_store_mixed read_ex_doc]
  from t have a: "getUserNFTCount ex_store_mixed (walletAddress ex_doc) = 1" by simp
  from t have b: "nft_find ex_store_mixed (walletAddress ex_doc) 0 10 = Inr [select_public ex_doc]"
    by simp
  from t b have c: "list_all (\<lambda>d. status d = Confirmed) [select_public ex_doc]" by blast
  from t have "NFT_getEventStats ex_store_mixed = NFT_getEventStats [ex_doc]" by simp
  then have d: "map totalMints (NFT_getEventStats ex_store_mixed) = [1]"
    by (simp only: read_ex_doc)
  from a b c d show ?thesis by blast
qed

section \<open>The computed fields of a listed record\<close>

lemma truncate_enrich: "nft.truncate (enrich e d) = d"
  by (simp add: enrich_def nft.truncate_def nft.extend_def)

lemma enrich_fields:
  "pinataImageUrl (enrich e d) = ''https://gateway.pinata.cloud/ipfs/'' @ ipfsCid d"
  "blockExplorerUrl (enrich e d) =
     (if networkChainId d = 8453 then ''https://basescan.org/tx/'' @ transactionHash d
      else ''https://sepolia.basescan.org/tx/'' @ transactionHash d)"
  "daysAgo (enrich e d) = (now e - mintedAt d) div 86400000"
  by (simp_all add: enrich_def nft.extend_def enriched_nft.fields_def math_floor_div_def)

lemma days_floor: "(a::int) div 86400000 = \<lfloor>real_of_int a / (1000 * 60 * 60 * 24)\<rfloor>"
  using floor_divide_of_int_eq [of a 86400000, where ?'a = real] by simp

lemma getUserNFTs_ListData:
  assumes "getUserNFTs e db r = (res, ops)" and "content res = ListData nfts pg meta"
  shows "\<exists>page n found.
           parseInt_or (query_page r) 1 = Inr page \<and> parseInt_or (query_limit r) 10 = Inr n
           \<and> nft_find db (toLowerCase (param_walletAddress r)) ((page - 1) * n) n = Inr found
           \<and> nfts = map (enrich e) found \<and> address_pattern (param_walletAddress r)"
  using assms
  by (auto simp add: getUserNFTs_def getUserNFTs_catch_def Let_def
      split: if_splits sum.splits)

text \<open>
  C8. Every record in a list-by-owner response is a stored record (without
  \<^verbatim>\<open>userAgent\<close> and \<^verbatim>\<open>ipAddress\<close>) extended with three fields computed from
  it: the gateway URL built from its \<^verbatim>\<open>ipfsCid\<close>; the block-explorer URL of its
  \<^verbatim>\<open>transactionHash\<close>, on the mainnet host exactly when \<^verbatim>\<open>networkChainId\<close> is
  8453 and on the testnet host otherwise; and \<^verbatim>\<open>daysAgo\<close>, the floor of the time
  since \<^verbatim>\<open>mintedAt\<close> divided by one day. The two URLs are those of the schema's
  virtuals. The handler returns no store: nothing is persisted.
\<close>

theorem getUserNFTs_enrichment:
  assumes "getUserNFTs e db r = (res, ops)" and "content res = ListData nfts pg meta"
    and "x \<in> set nfts"
  shows "\<exists>d\<in>set db. nft.truncate x = select_public d
           \<and> pinataImageUrl x = ''https://gateway.pinata.cloud/ipfs/'' @ ipfsCid d
           \<and> (blockExplorerUrl x = ''https://basescan.org/tx/'' @ transactionHash d
                \<longleftrightarrow> networkChainId d = 8453)
           \<and> (blockExplorerUrl x = ''https://sepolia.basescan.org/tx/'' @ transactionHash d
                \<longleftrightarrow> networkChainId d \<noteq> 8453)
           \<and> blockExplorerUrl x = virtual_blockExplorerUrl d
           \<and> (ipfsCid d \<noteq> [] \<longrightarrow> virtual_pinataImageUrl d = Some (pinataImageUrl x))
           \<and> daysAgo x = \<lfloor>real_of_int (now e - mintedAt d) / (1000 * 60 * 60 * 24)\<rfloor>"
proof -
  from getUserNFTs_ListData [OF assms(1,2)] obtain page k found where
    f: "nft_find db (toLowerCase (param_walletAddress r)) ((page - 1) * k) k = Inr found"
    and n: "nfts = map (enrich e) found" by blast
  from n assms(3) obtain y where y: "y \<in> set found" and x: "x = enrich e y" by auto
  from nft_find_subset [OF f y] obtain d where d: "d \<in> set db" and yd: "y = select_public d"
    by blast
  have "nft.truncate x = select_public d" by (simp add: x yd truncate_enrich)
  moreover have "pinataImageUrl x = ''https://gateway.pinata.cloud/ipfs/'' @ ipfsCid d"
    by (simp add: x yd enrich_fields select_public_def)
  moreover have b: "blockExplorerUrl x =
     (if networkChainId d = 8453 then ''https://basescan.org/tx/'' @ transactionHash d
      else ''https://sepolia.basescan.org/tx/'' @ transactionHash d)"
    by (simp add: x yd enrich_fields select_public_def)
  moreover from b have "blockExplorerUrl x = ''https://basescan.org/tx/'' @ transactionHash d
                \<longleftrightarrow> networkChainId d = 8453" by simp
  moreover from b have
    "blockExplorerUrl x = ''https://sepolia.basescan.org/tx/'' @ transactionHash d
       \<longleftrightarrow> networkChainId d \<noteq> 8453" by simp
  moreover from b have "blockExplorerUrl x = virtual_blockExplorerUrl d"
    by (simp add: virtual_blockExplorerUrl_def)
  moreover have "ipfsCid d \<noteq> [] \<longrightarrow> virtual_pinataImageUrl d = Some (pinataImageUrl x)"
    by (simp add: x yd enrich_fields select_public_def virtual_pinataImageUrl_def)
  moreover have "daysAgo x = \<lfloor>real_of_int (now e - mintedAt d) / (1000 * 60 * 60 * 24)\<rfloor>"
    by (simp only: x yd enrich_fields days_floor [symmetric]) (simp add: select_public_def)
  ultimately show ?thesis using d by blast
qed

lemma getUserNFTs_ex_doc:
  "getUserNFTs ex_env_later [ex_doc] ex_list_request =
     (\<lparr> http_status = 200, success = True, message = None,
        content = ListData [ex_enriched]
          \<lparr> currentPage = 1, totalPages = 1, totalCount = 1, hasNextPage = False,
            hasPrevPage = False, limit = 10 \<rparr>
          \<lparr> meta_walletAddress = walletAddress ex_doc, firstNFTDate = Some 1700000000000,
            latestNFTDate = Some 1700000000000 \<rparr> \<rparr>,
      [Find (walletAddress ex_doc) 0 10, CountDocuments (walletAddress ex_doc)])"
  by code_simp

lemma ex_doc_fields:
  "ipfsCid ex_doc = ''QmYwAPJzv5CZsnA625s3Xf2nemtYgPpHdWEz79ojWnPbdG''"
  "transactionHash ex_doc =
     ''0xabcdef0123456789abcdef0123456789abcdef0123456789abcdef0123456789''"
  "networkChainId ex_doc = 8453"
  "mintedAt ex_doc = 1700000000000"
  "now ex_env_later = 1700259205000"
  by (simp_all add: ex_doc_def ex_cid_def ex_env_later_def)

theorem getUserNFTs_enrichment_witness:
  "content (fst (getUserNFTs ex_env_later [ex_doc] ex_list_request)) =
     ListData [ex_enriched]
       \<lparr> currentPage = 1, totalPages = 1, totalCount = 1, hasNextPage = False,
         hasPrevPage = False, limit = 10 \<rparr>
       \<lparr> meta_walletAddress = walletAddress ex_doc, firstNFTDate = Some 1700000000000,
         latestNFTDate = Some 1700000000000 \<rparr>
   \<and> ex_enriched \<in> set [ex_enriched]
   \<and> nft.truncate ex_enriched = select_public ex_doc
   \<and> pinataImageUrl ex_enriched =
       ''https://gateway.pinata.cloud/ipfs/QmYwAPJzv5CZsnA625s3Xf2nemtYgPpHdWEz79ojWnPbdG''
   \<and> blockExplorerUrl ex_enriched =
       ''https://basescan.org/tx/0xabcdef0123456789abcdef0123456789abcdef0123456789abcdef0123456789''
   \<and> daysAgo ex_enriched = 3"
proof -
  have c: "content (\<lparr> http_status = 200, success = True, message = None,
        content = ListData [ex_enriched]
          \<lparr> currentPage = 1, totalPages = 1, totalCount = 1, hasNextPage = False,
            hasPrevPage = False, limit = 10 \<rparr>
          \<lparr> meta_walletAddress = walletAddress ex_doc, firstNFTDate = Some 1700000000000,
            latestNFTDate = Some 1700000000000 \<rparr> \<rparr>)
     = ListData [ex_enriched]
          \<lparr> currentPage = 1, totalPages = 1, totalCount = 1, hasNextPage = False,
            hasPrevPage = False, limit = 10 \<rparr>
          \<lparr> meta_walletAddress = walletAddress ex_doc, firstNFTDate = Some 1700000000000,
            latestNFTDate = Some 1700000000000 \<rparr>" by simp
  have m: "ex_enriched \<in> set [ex_enriched]" by simp
  from getUserNFTs_enrichment [OF getUserNFTs_ex_doc c m] obtain d where
    d: "d \<in> set [ex_doc]" and
    t: "nft.truncate ex_enriched = select_public d"
       "pinataImageUrl ex_enriched = ''https://gateway.pinata.cloud/ipfs/'' @ ipfsCid d"
       "blockExplorerUrl ex_enriched = ''https://basescan.org/tx/'' @ transactionHash d
          \<longleftrightarrow> networkChainId d = 8453"
       "daysAgo ex_enriched
          = \<lfloor>real_of_int (now ex_env_later - mintedAt d) / (1000 * 60 * 60 * 24)\<rfloor>"
    by blast
  from d have "d = ex_doc" by simp
  with t show ?thesis
    by (simp add: ex_doc_fields getUserNFTs_ex_doc)
qed

section \<open>Pagination of \<^verbatim>\<open>getUserNFTs\<close>\<close>









section \<open>Event statistics: the buckets and the totals\<close>

lemma group_step_ids:
  "map g_id (group_step d gs) =
     (if eventName d \<in> set (map g_id gs) then map g_id gs else map g_id gs @ [eventName d])"
  by (induction gs) (auto simp add: group_add_def group_new_def)

lemma group_step_cases:
  assumes "g' \<in> set (group_step d gs)" and "distinct (map g_id gs)"
  shows "(g' \<in> set gs \<and> g_id g' \<noteq> eventName d)
         \<or> (\<exists>g\<in>set gs. g_id g = eventName d \<and> g' = group_add d g)
         \<or> (eventName d \<notin> set (map g_id gs) \<and> g' = group_new d)"
  using assms
proof (induction gs)
  case Nil
  then show ?case by simp
next
  case (Cons g gs)
  show ?case
  proof (cases "g_id g = eventName d")
    case True
    with Cons.prems have "g' = group_add d g \<or> (g' \<in> set gs \<and> g_id g' \<noteq> eventName d)"
      by (auto simp add: image_iff)
    with True show ?thesis by auto
  next
    case False
    with Cons.prems have "g' = g \<or> g' \<in> set (group_step d gs)" by simp
    then show ?thesis
    proof
      assume "g' = g"
      with False show ?thesis by simp
    next
      assume "g' \<in> set (group_step d gs)"
      with Cons.IH Cons.prems(2) have
        "(g' \<in> set gs \<and> g_id g' \<noteq> eventName d)
         \<or> (\<exists>g\<in>set gs. g_id g = eventName d \<and> g' = group_add d g)
         \<or> (eventName d \<notin> set (map g_id gs) \<and> g' = group_new d)" by simp
      with False show ?thesis by auto
    qed
  qed
qed

lemma bucket_ok_other:
  assumes "bucket_ok ds g" and "g_id g \<noteq> eventName d"
  shows "bucket_ok (ds @ [d]) g"
  using assms by (auto simp add: bucket_ok_def of_event_def)

lemma bucket_ok_add:
  assumes "bucket_ok ds g" and "g_id g = eventName d"
  shows "bucket_ok (ds @ [d]) (group_add d g)"
  using assms by (auto simp add: bucket_ok_def of_event_def group_add_def)

lemma bucket_ok_new:
  assumes "eventName d \<notin> eventName ` set ds"
  shows "bucket_ok (ds @ [d]) (group_new d)"
proof -
  from assms have "\<forall>x\<in>set ds. eventName x \<noteq> eventName d"
    by (metis imageI)
  then have "of_event (eventName d) ds = []"
    by (simp add: of_event_def filter_empty_conv)
  then show ?thesis by (simp add: bucket_ok_def group_new_def of_event_def)
qed

lemma group_stage_snoc: "group_stage (ds @ [d]) = group_step d (group_stage ds)"
  by (simp add: group_stage_def)

lemma group_stage_ids:
  "distinct (map g_id (group_stage ds)) \<and> set (map g_id (group_stage ds)) = eventName ` set ds"
proof (induction ds rule: rev_induct)
  case Nil
  then show ?case by (simp add: group_stage_def)
next
  case (snoc d ds)
  then show ?case by (auto simp add: group_stage_snoc group_step_ids)
qed

lemma group_stage_buckets:
  "g \<in> set (group_stage ds) \<Longrightarrow> bucket_ok ds g"
proof (induction ds arbitrary: g rule: rev_induct)
  case Nil
  then show ?case by (simp add: group_stage_def)
next
  case (snoc d ds)
  from snoc.prems have "g \<in> set (group_step d (group_stage ds))"
    by (simp add: group_stage_snoc)
  then consider
      (other) "g \<in> set (group_stage ds)" "g_id g \<noteq> eventName d"
    | (add) g0 where "g0 \<in> set (group_stage ds)" "g_id g0 = eventName d" "g = group_add d g0"
    | (new) "eventName d \<notin> set (map g_id (group_stage ds))" "g = group_new d"
    using group_step_cases group_stage_ids [of ds] by blast
  then show ?case
  proof cases
    case other
    then show ?thesis using snoc.IH bucket_ok_other by blast
  next
    case add
    then show ?thesis using snoc.IH bucket_ok_add by blast
  next
    case new
    with group_stage_ids [of ds] have "eventName d \<notin> eventName ` set ds" by simp
    with new show ?thesis by (simp add: bucket_ok_new)
  qed
qed

lemma totals_foldl:
  "foldl (\<lambda>t event. t\<lparr> sum_totalMints := sum_totalMints t + totalMints event,
                        totalUniqueUsers := totalUniqueUsers t + uniqueUserCount event \<rparr>)
     t stats
   = t\<lparr> sum_totalMints := sum_totalMints t + sum_list (map totalMints stats),
        totalUniqueUsers := totalUniqueUsers t + sum_list (map uniqueUserCount stats) \<rparr>"
  by (induction stats arbitrary: t) (simp_all add: add.assoc)

lemma getEventStats_eq:
  "getEventStats e db =
     (\<lparr> http_status = 200, success = True, message = None,
        content = (\<lparr> sum_totalMints = sum_list (map totalMints (NFT_getEventStats db)),
                     totalUniqueUsers = sum_list (map uniqueUserCount (NFT_getEventStats db)),
                     events = NFT_getEventStats db \<rparr>, now e) \<rparr>, [Aggregate])"
  by (simp add: getEventStats_def Let_def totals_foldl)

lemma NFT_getEventStats_entry:
  assumes "s \<in> set (NFT_getEventStats db)"
  shows "totalMints s =
           int (length (filter (\<lambda>d. status d = Confirmed \<and> eventName d = stat_eventName s) db))
         \<and> uniqueUserCount s =
           int (card (set (map walletAddress
                 (filter (\<lambda>d. status d = Confirmed \<and> eventName d = stat_eventName s) db))))"
proof -
  let ?c = "filter (\<lambda>d. status d = Confirmed) db"
  from assms obtain g where g: "g \<in> set (group_stage ?c)" and s: "s = project_stage g"
    by (auto simp add: NFT_getEventStats_def)
  from group_stage_buckets [OF g] have b: "bucket_ok ?c g" .
  have f: "of_event k ?c = filter (\<lambda>d. status d = Confirmed \<and> eventName d = k) db" for k
    by (simp add: of_event_def conj_commute)
  from b have "g_totalMints g = int (length (of_event (g_id g) ?c))"
    and "int (length (g_uniqueUsers g)) = int (card (set (map walletAddress (of_event (g_id g) ?c))))"
    by (auto simp add: bucket_ok_def distinct_card [symmetric] simp del: set_map)
  then show ?thesis by (simp add: s project_stage_def f)
qed

lemma NFT_getEventStats_names:
  "distinct (map stat_eventName (NFT_getEventStats db))
   \<and> set (map stat_eventName (NFT_getEventStats db))
       = set (map eventName (filter (\<lambda>d. status d = Confirmed) db))"
proof -
  have "map stat_eventName (NFT_getEventStats db)
          = map g_id (group_stage (filter (\<lambda>d. status d = Confirmed) db))"
    by (simp add: NFT_getEventStats_def project_stage_def comp_def)
  with group_stage_ids [of "filter (\<lambda>d. status d = Confirmed) db"] show ?thesis by simp
qed

text \<open>
  C6. The statistics have one entry per event name of the confirmed records; an entry's
  \<^verbatim>\<open>totalMints\<close> is the number of confirmed records of its event and its
  \<^verbatim>\<open>uniqueUserCount\<close> the number of distinct \<^verbatim>\<open>walletAddress\<close> values among
  them. The handler's \<^verbatim>\<open>totalMints\<close> and \<^verbatim>\<open>totalUniqueUsers\<close> are the sums of
  the entries' \<^verbatim>\<open>totalMints\<close> and \<^verbatim>\<open>uniqueUserCount\<close>. For three confirmed
  mints of event A by two owners and one of event B, the entries are A: 3 and 2, B: 1 and
  1, and the totals 4 and 3.
\<close>

theorem getEventStats_totals:
  "\<exists>stats.
      getEventStats e db =
        (\<lparr> http_status = 200, success = True, message = None,
           content = (\<lparr> sum_totalMints = sum_list (map totalMints stats),
                        totalUniqueUsers = sum_list (map uniqueUserCount stats),
                        events = stats \<rparr>, now e) \<rparr>, [Aggregate])
    \<and> stats = NFT_getEventStats db
    \<and> distinct (map stat_eventName stats)
    \<and> set (map stat_eventName stats) = set (map eventName (filter (\<lambda>d. status d = Confirmed) db))
    \<and> (\<forall>s\<in>set stats.
          totalMints s =
            int (length (filter (\<lambda>d. status d = Confirmed \<and> eventName d = stat_eventName s) db))
        \<and> uniqueUserCount s =
            int (card (set (map walletAddress
                  (filter (\<lambda>d. status d = Confirmed \<and> eventName d = stat_eventName s) db)))))
    \<and> map (\<lambda>s. (stat_eventName s, totalMints s, uniqueUserCount s))
          (NFT_getEventStats ex_store_events) = [(''A'', 3, 2), (''B'', 1, 1)]
    \<and> sum_totalMints (fst (content (fst (getEventStats ex_env ex_store_events)))) = 4
    \<and> totalUniqueUsers (fst (content (fst (getEventStats ex_env ex_store_events)))) = 3"
proof -
  have ex: "map (\<lambda>s. (stat_eventName s, totalMints s, uniqueUserCount s))
          (NFT_getEventStats ex_store_events) = [(''A'', 3, 2), (''B'', 1, 1)]"
    "sum_totalMints (fst (content (fst (getEventStats ex_env ex_store_events)))) = 4"
    "totalUniqueUsers (fst (content (fst (getEventStats ex_env ex_store_events)))) = 3"
    by code_simp+
  show ?thesis
    apply (rule exI [of _ "NFT_getEventStats db"])
    apply (intro conjI ballI)
    subgoal by (rule getEventStats_eq)
    subgoal by (rule refl)
    subgoal using NFT_getEventStats_names [of db] by blast
    subgoal using NFT_getEventStats_names [of db] by blast
    subgoal for s using NFT_getEventStats_entry [of s db] by blast
    subgoal for s using NFT_getEventStats_entry [of s db] by blast
    subgoal by (rule ex(1))
    subgoal by (rule ex(2))
    subgoal by (rule ex(3))
    done
qed

lemma ex_store_events_A:
  "NFT_getEventStats ex_store_events \<noteq> []"
  "stat_eventName (hd (NFT_getEventStats ex_store_events)) = ''A''"
  "length (filter (\<lambda>d. status d = Confirmed \<and> eventName d = ''A'') ex_store_events) = 3"
  "card (set (map walletAddress
     (filter (\<lambda>d. status d = Confirmed \<and> eventName d = ''A'') ex_store_events))) = 2"
  by code_simp+

theorem getEventStats_totals_witness:
  "hd (NFT_getEventStats ex_store_events) \<in> set (NFT_getEventStats ex_store_events)
   \<and> stat_eventName (hd (NFT_getEventStats ex_store_events)) = ''A''
   \<and> totalMints (hd (NFT_getEventStats ex_store_events)) = 3
   \<and> uniqueUserCount (hd (NFT_getEventStats ex_store_events)) = 2"
proof -
  let ?s = "hd (NFT_getEventStats ex_store_events)"
  have m: "?s \<in> set (NFT_getEventStats ex_store_events)"
    using ex_store_events_A(1) by simp
  from getEventStats_totals [of ex_env ex_store_events] have
    "\<forall>s\<in>set (NFT_getEventStats ex_store_events).
          totalMints s =
            int (length (filter (\<lambda>d. status d = Confirmed \<and> eventName d = stat_eventName s)
                   ex_store_events))
        \<and> uniqueUserCount s =
            int (card (set (map walletAddress
                  (filter (\<lambda>d. status d = Confirmed \<and> eventName d = stat_eventName s)
                     ex_store_events))))"
    by blast
  with m have "totalMints ?s =
            int (length (filter (\<lambda>d. status d = Confirmed \<and> eventName d = stat_eventName ?s)
                   ex_store_events))
        \<and> uniqueUserCount ?s =
            int (card (set (map walletAddress
                  (filter (\<lambda>d. status d = Confirmed \<and> eventName d = stat_eventName ?s)
                     ex_store_events))))"
    by blast
  then have "totalMints ?s = 3 \<and> uniqueUserCount ?s = 2"
    by (simp only: ex_store_events_A) simp
  with m ex_store_events_A(2) show ?thesis by (simp only: simp_thms)
qed

section \<open>Lowercase normalization of addresses and hashes\<close>

lemma lower_char_not_upper: "lower_char c \<notin> set upper_chars"
  by (simp add: lower_char_def upper_chars_def lower_chars_def)

lemma lower_char_id: "c \<notin> set upper_chars \<Longrightarrow> lower_char c = c"
proof -
  assume "c \<notin> set upper_chars"
  moreover have "length upper_chars = length lower_chars"
    by (simp add: upper_chars_def lower_chars_def)
  ultimately have "map_of (zip upper_chars lower_chars) c = None"
    by (simp add: map_of_zip_is_None)
  then show ?thesis by (simp add: lower_char_def)
qed

lemma toLowerCase_lower: "list_all (\<lambda>c. c \<notin> set upper_chars) (toLowerCase s)"
  by (simp add: toLowerCase_def list_all_iff lower_char_not_upper)

lemma toLowerCase_idem: "toLowerCase (toLowerCase s) = toLowerCase s"
  by (simp add: toLowerCase_def lower_char_id lower_char_not_upper)

lemma toLowerCase_Nil: "toLowerCase s = [] \<longleftrightarrow> s = []"
  by (simp add: toLowerCase_def)

lemma string_path_lower:
  assumes "string_path True m p pm v = Inr s"
  shows "\<exists>w. castString v = CastTo w \<and> s = toLowerCase w"
  using assms by (auto simp add: string_path_def Let_def split: cast.splits if_splits)

lemma string_path_case_insensitive:
  assumes "toLowerCase s' = toLowerCase s"
  shows "string_path True m p pm (JStr s') = string_path True m p pm (JStr s)"
  using assms by (simp add: string_path_def)

lemma new_NFT_Inr:
  assumes "new_NFT e r data = Inr d"
  shows "walletAddress_path (req_walletAddress r) = Inr (walletAddress d)
         \<and> contractAddress_path (req_contractAddress r) = Inr (contractAddress d)
         \<and> transactionHash_path (req_transactionHash r) = Inr (transactionHash d)"
  using assms by (auto simp add: new_NFT_def Let_def split: sum.splits)

lemma pre_save_fields:
  "walletAddress (pre_save d) = toLowerCase (walletAddress d)"
  "contractAddress (pre_save d) = toLowerCase (contractAddress d)"
  "transactionHash (pre_save d) = toLowerCase (transactionHash d)"
  by (simp_all add: pre_save_def Let_def toLowerCase_def)

lemma saveNFT_store_cases:
  assumes "saveNFT e db r = (res, db', ops)"
  shows "db' = db \<or> (\<exists>d h data. req_transactionHash r = JStr h \<and> new_NFT e r data = Inr d
                          \<and> db' = db @ [pre_save d])"
  using assms
  by (auto simp add: saveNFT_def saveNFT_try_def insert_nft_def Let_def
      split: if_splits jsval.splits option.splits sum.splits)



lemma getUserNFTCount_case_insensitive:
  "toLowerCase w' = toLowerCase w \<Longrightarrow> getUserNFTCount db w' = getUserNFTCount db w"
  by (simp add: getUserNFTCount_def)

lemma new_NFT_case_insensitive:
  assumes "req_walletAddress r = JStr w" and "req_contractAddress r = JStr a"
    and "req_transactionHash r = JStr h"
    and "toLowerCase w' = toLowerCase w" and "toLowerCase a' = toLowerCase a"
    and "toLowerCase h' = toLowerCase h"
  shows "new_NFT e (r\<lparr> req_walletAddress := JStr w', req_contractAddress := JStr a',
                        req_transactionHash := JStr h' \<rparr>) data = new_NFT e r data"
proof -
  let ?r = "r\<lparr> req_walletAddress := JStr w', req_contractAddress := JStr a',
               req_transactionHash := JStr h' \<rparr>"
  have 1: "walletAddress_path (req_walletAddress ?r) = walletAddress_path (req_walletAddress r)"
    by (simp add: walletAddress_path_def assms(1) string_path_case_insensitive [OF assms(4)])
  have 2: "contractAddress_path (req_contractAddress ?r)
             = contractAddress_path (req_contractAddress r)"
    by (simp add: contractAddress_path_def assms(2) string_path_case_insensitive [OF assms(5)])
  have 3: "transactionHash_path (req_transactionHash ?r)
             = transactionHash_path (req_transactionHash r)"
    by (simp add: transactionHash_path_def assms(3) string_path_case_insensitive [OF assms(6)])
  have 4: "req_ipfsCid ?r = req_ipfsCid r" "req_metadataUri ?r = req_metadataUri r"
    "req_tokenId ?r = req_tokenId r" "req_eventData ?r = req_eventData r"
    "req_userAgent ?r = req_userAgent r" "req_ip ?r = req_ip r"
    by simp_all
  show ?thesis
    unfolding new_NFT_def by (simp only: 1 2 3 4)
qed

lemma nftData_case_insensitive:
  "nftData e (r\<lparr> req_walletAddress := w, req_contractAddress := a,
                    req_transactionHash := h \<rparr>) = nftData e r"
  by (simp add: nftData_def Let_def split: sum.splits)

lemma saveNFT_case_insensitive:
  assumes "req_walletAddress r = JStr w" and "req_contractAddress r = JStr a"
    and "req_transactionHash r = JStr h"
    and "toLowerCase w' = toLowerCase w" and "toLowerCase a' = toLowerCase a"
    and "toLowerCase h' = toLowerCase h"
  shows "saveNFT e db (r\<lparr> req_walletAddress := JStr w', req_contractAddress := JStr a',
                         req_transactionHash := JStr h' \<rparr>) = saveNFT e db r"
proof -
  let ?r = "r\<lparr> req_walletAddress := JStr w', req_contractAddress := JStr a',
               req_transactionHash := JStr h' \<rparr>"
  from assms(4-6) have ne: "(w' = []) = (w = [])" "(a' = []) = (a = [])" "(h' = []) = (h = [])"
    by (metis toLowerCase_Nil)+
  have t: "truthy (req_walletAddress ?r) = truthy (req_walletAddress r)"
    "truthy (req_contractAddress ?r) = truthy (req_contractAddress r)"
    "truthy (req_transactionHash ?r) = truthy (req_transactionHash r)"
    "req_ipfsCid ?r = req_ipfsCid r" "req_metadataUri ?r = req_metadataUri r"
    "req_tokenId ?r = req_tokenId r"
    by (simp_all add: assms(1-3) ne)
  have s: "req_transactionHash ?r = JStr h'" "req_walletAddress ?r = JStr w'" by simp_all
  have t': "truthy (JStr w') = truthy (JStr w)" "truthy (JStr h') = truthy (JStr h)"
    by (simp_all add: ne)
  have "saveNFT_try e db ?r = saveNFT_try e db r"
    unfolding saveNFT_try_def new_NFT_case_insensitive [OF assms] nftData_case_insensitive
    by (simp only: t t' s assms(1,3) jsval.case assms(4,6)
        getUserNFTCount_case_insensitive [OF assms(4)])
  then show ?thesis by (simp only: saveNFT_def)
qed


lemma saveNFT_try_after_precheck:
  assumes "list_all truthy (required_values r)" and "req_transactionHash r = JStr h"
    and "findOne (toLowerCase h) db = None"
  shows "saveNFT_try e db r = (Inl TypeError, db, [FindOne (toLowerCase h)])
       \<or> (\<exists>errors. saveNFT_try e db r = (Inl (ValidationError errors), db, [FindOne (toLowerCase h)]))
       \<or> (\<exists>d. saveNFT_try e db r
                = (Inl (MongoServerError 11000), db, [FindOne (toLowerCase h), Insert d]))
       \<or> (\<exists>d. saveNFT_try e db r
                = (Inl TypeError, db @ [d], [FindOne (toLowerCase h), Insert d]))
       \<or> (\<exists>d n w. saveNFT_try e db r
                = (Inr \<lparr> http_status = 201, success = True,
                          message = Some ''NFT saved successfully'',
                          content = SavedData d n (n = 1) \<rparr>, db @ [d],
                   [FindOne (toLowerCase h), Insert d, CountDocuments (toLowerCase w)]))"
proof (cases "nftData e r")
  case (Inl error)
  then have "error = TypeError"
    by (auto simp add: nftData_def Let_def split: if_splits sum.splits option.splits
        elim: newDate.elims)
  with Inl assms show ?thesis
    by (simp add: saveNFT_try_def required_values_def)
next
  case data: (Inr data)
  show ?thesis
  proof (cases "new_NFT e r data")
    case (Inl errors)
    with data assms show ?thesis
      by (simp add: saveNFT_try_def required_values_def)
  next
    case (Inr newNFT)
    show ?thesis
    proof (cases "transactionHash (pre_save newNFT) \<in> set (map transactionHash db)")
      case True
      with data Inr assms show ?thesis
        by (simp add: saveNFT_try_def required_values_def insert_nft_def Let_def)
    next
      case False
      with data Inr assms show ?thesis
        by (cases "req_walletAddress r")
           (auto simp add: saveNFT_try_def required_values_def insert_nft_def Let_def)
    qed
  qed
qed

lemma saveNFT_no_duplicate:
  assumes "list_all truthy (required_values r)" and "req_transactionHash r = JStr h"
    and "findOne (toLowerCase h) db = None"
  shows "message (fst (saveNFT e db r)) \<noteq> Some ''NFT already recorded''
         \<and> (\<exists>rest. snd (snd (saveNFT e db r)) = FindOne (toLowerCase h) # rest)"
  using saveNFT_try_after_precheck [OF assms, of e]
  by (auto simp add: saveNFT_def saveNFT_catch_def)

lemma findOne_None_iff: "findOne k db = None \<longleftrightarrow> \<not> (\<exists>d\<in>set db. transactionHash d = k)"
  by (auto simp add: findOne_def find_None_iff)

lemma saveNFT_duplicate_iff:
  assumes "list_all truthy (required_values r)" and "req_transactionHash r = JStr h"
  shows "((\<exists>d\<in>set db. transactionHash d = toLowerCase h)
            \<longleftrightarrow> message (fst (saveNFT e db r)) = Some ''NFT already recorded'')
         \<and> (\<exists>rest. snd (snd (saveNFT e db r)) = FindOne (toLowerCase h) # rest)"
proof (cases "findOne (toLowerCase h) db")
  case None
  with saveNFT_no_duplicate [OF assms None, of e] show ?thesis
    by (simp add: findOne_None_iff)
next
  case (Some x)
  then have "\<exists>d\<in>set db. transactionHash d = toLowerCase h"
    using findOne_None_iff [of "toLowerCase h" db] by simp
  with saveNFT_try_precheck [OF assms Some, of e] show ?thesis by simp
qed

lemma getUserNFTs_case_insensitive:
  assumes "address_pattern (param_walletAddress q)" and "address_pattern (param_walletAddress q')"
    and "toLowerCase (param_walletAddress q') = toLowerCase (param_walletAddress q)"
    and "query_page q' = query_page q" and "query_limit q' = query_limit q"
  shows "getUserNFTs e db q' = getUserNFTs e db q"
proof -
  have "param_walletAddress q \<noteq> []" "param_walletAddress q' \<noteq> []"
    using assms(1,2) by (auto simp add: address_pattern_def hex_pattern_def)
  then show ?thesis
    unfolding getUserNFTs_def
    by (simp only: assms getUserNFTCount_case_insensitive [OF assms(3)] Let_def simp_thms if_False)
qed

lemma getUserNFTs_owner:
  assumes "getUserNFTs e db q = (res, ops)" and "content res = ListData nfts pg meta"
    and "x \<in> set nfts"
  shows "walletAddress x = toLowerCase (param_walletAddress q)"
proof -
  from getUserNFTs_ListData [OF assms(1,2)] obtain page k found where
    f: "nft_find db (toLowerCase (param_walletAddress q)) ((page - 1) * k) k = Inr found"
    and n: "nfts = map (enrich e) found" by blast
  from n assms(3) obtain y where y: "y \<in> set found" and x: "x = enrich e y" by auto
  from nft_find_subset [OF f y] obtain d where "y = select_public d"
    and "walletAddress d = toLowerCase (param_walletAddress q)" by blast
  then show ?thesis by (simp add: x enrich_def nft.extend_def select_public_def)
qed

lemma saveNFT_stored_lowercase:
  assumes "saveNFT e db r = (res, db', ops)" and "db' \<noteq> db"
  shows "\<exists>d w a h. db' = db @ [d]
           \<and> castString (req_walletAddress r) = CastTo w \<and> walletAddress d = toLowerCase w
           \<and> castString (req_contractAddress r) = CastTo a \<and> contractAddress d = toLowerCase a
           \<and> req_transactionHash r = JStr h \<and> transactionHash d = toLowerCase h
           \<and> list_all (\<lambda>c. c \<notin> set upper_chars)
                 (walletAddress d @ contractAddress d @ transactionHash d)"
proof -
  from saveNFT_store_cases [OF assms(1)] assms(2) obtain d0 h data where
    h: "req_transactionHash r = JStr h" and n: "new_NFT e r data = Inr d0"
    and db': "db' = db @ [pre_save d0]" by blast
  from new_NFT_Inr [OF n] have
    pw: "walletAddress_path (req_walletAddress r) = Inr (walletAddress d0)" and
    pa: "contractAddress_path (req_contractAddress r) = Inr (contractAddress d0)" and
    ph: "transactionHash_path (req_transactionHash r) = Inr (transactionHash d0)" by simp_all
  from pw obtain w where w: "castString (req_walletAddress r) = CastTo w"
    "walletAddress d0 = toLowerCase w"
    unfolding walletAddress_path_def by (blast dest: string_path_lower)
  from pa obtain a where a: "castString (req_contractAddress r) = CastTo a"
    "contractAddress d0 = toLowerCase a"
    unfolding contractAddress_path_def by (blast dest: string_path_lower)
  from ph obtain h' where "castString (req_transactionHash r) = CastTo h'"
    and th: "transactionHash d0 = toLowerCase h'"
    unfolding transactionHash_path_def by (blast dest: string_path_lower)
  with h have "h' = h" by simp
  with th have th': "transactionHash d0 = toLowerCase h" by simp
  let ?d = "pre_save d0"
  have f: "walletAddress ?d = toLowerCase w" "contractAddress ?d = toLowerCase a"
    "transactionHash ?d = toLowerCase h"
    by (simp_all add: pre_save_fields w a th' toLowerCase_idem)
  have "list_all (\<lambda>c. c \<notin> set upper_chars)
          (walletAddress ?d @ contractAddress ?d @ transactionHash ?d)"
    by (simp only: f list_all_append toLowerCase_lower simp_thms)
  with db' w(1) a(1) h f show ?thesis by blast
qed


text \<open>
  C5, as the code has it. (1) Whenever \<^verbatim>\<open>saveNFT\<close> stores a record, its
  \<^verbatim>\<open>walletAddress\<close>, \<^verbatim>\<open>contractAddress\<close> and \<^verbatim>\<open>transactionHash\<close> are the
  lowercased values of the request and contain no uppercase letter. (2) A save request that
  differs from another only in the letter case of these three fields has the same outcome.
  (3) Once the required fields are truthy, the first store operation is the lookup of the
  lowercased hash, and the request is answered "NFT already recorded" exactly when a stored
  record has that lowercased hash. (4) Two list requests whose addresses both match the
  address pattern, with its lowercase \<^verbatim>\<open>0x\<close>, and differ only in letter case have
  the same outcome, and (5) every listed record has the lowercased address of the request
  as its \<^verbatim>\<open>walletAddress\<close>.
\<close>

theorem lowercase_normalization:
  "(\<forall>res db' ops. saveNFT e db r = (res, db', ops) \<and> db' \<noteq> db \<longrightarrow>
      (\<exists>d w a h. db' = db @ [d]
         \<and> castString (req_walletAddress r) = CastTo w \<and> walletAddress d = toLowerCase w
         \<and> castString (req_contractAddress r) = CastTo a \<and> contractAddress d = toLowerCase a
         \<and> req_transactionHash r = JStr h \<and> transactionHash d = toLowerCase h
         \<and> list_all (\<lambda>c. c \<notin> set upper_chars)
               (walletAddress d @ contractAddress d @ transactionHash d)))
   \<and> (\<forall>w a h w' a' h'.
        req_walletAddress r = JStr w \<and> req_contractAddress r = JStr a
        \<and> req_transactionHash r = JStr h
        \<and> toLowerCase w' = toLowerCase w \<and> toLowerCase a' = toLowerCase a
        \<and> toLowerCase h' = toLowerCase h \<longrightarrow>
        saveNFT e db (r\<lparr> req_walletAddress := JStr w', req_contractAddress := JStr a',
                          req_transactionHash := JStr h' \<rparr>) = saveNFT e db r)
   \<and> (\<forall>h. list_all truthy (required_values r) \<and> req_transactionHash r = JStr h \<longrightarrow>
        ((\<exists>d\<in>set db. transactionHash d = toLowerCase h)
            \<longleftrightarrow> message (fst (saveNFT e db r)) = Some ''NFT already recorded'')
        \<and> (\<exists>rest. snd (snd (saveNFT e db r)) = FindOne (toLowerCase h) # rest))
   \<and> (\<forall>q q'. address_pattern (param_walletAddress q) \<and> address_pattern (param_walletAddress q')
        \<and> toLowerCase (param_walletAddress q') = toLowerCase (param_walletAddress q)
        \<and> query_page q' = query_page q \<and> query_limit q' = query_limit q \<longrightarrow>
        getUserNFTs e db q' = getUserNFTs e db q)
   \<and> (\<forall>q res ops nfts pg meta x.
        getUserNFTs e db q = (res, ops) \<and> content res = ListData nfts pg meta \<and> x \<in> set nfts \<longrightarrow>
        walletAddress x = toLowerCase (param_walletAddress q))"
proof (intro conjI allI impI)
  fix res db' ops
  assume "saveNFT e db r = (res, db', ops) \<and> db' \<noteq> db"
  then show "\<exists>d w a h. db' = db @ [d]
         \<and> castString (req_walletAddress r) = CastTo w \<and> walletAddress d = toLowerCase w
         \<and> castString (req_contractAddress r) = CastTo a \<and> contractAddress d = toLowerCase a
         \<and> req_transactionHash r = JStr h \<and> transactionHash d = toLowerCase h
         \<and> list_all (\<lambda>c. c \<notin> set upper_chars)
               (walletAddress d @ contractAddress d @ transactionHash d)"
    using saveNFT_stored_lowercase by blast
next
  fix w a h w' a' h'
  assume "req_walletAddress r = JStr w \<and> req_contractAddress r = JStr a
        \<and> req_transactionHash r = JStr h
        \<and> toLowerCase w' = toLowerCase w \<and> toLowerCase a' = toLowerCase a
        \<and> toLowerCase h' = toLowerCase h"
  then show "saveNFT e db (r\<lparr> req_walletAddress := JStr w', req_contractAddress := JStr a',
                          req_transactionHash := JStr h' \<rparr>) = saveNFT e db r"
    using saveNFT_case_insensitive by blast
next
  fix h
  assume a: "list_all truthy (required_values r) \<and> req_transactionHash r = JStr h"
  then show "(\<exists>d\<in>set db. transactionHash d = toLowerCase h)
            \<longleftrightarrow> message (fst (saveNFT e db r)) = Some ''NFT already recorded''"
    using saveNFT_duplicate_iff [of r h db e] by blast
  from a show "\<exists>rest. snd (snd (saveNFT e db r)) = FindOne (toLowerCase h) # rest"
    using saveNFT_duplicate_iff [of r h db e] by blast
next
  fix q q' :: list_request
  assume "address_pattern (param_walletAddress q) \<and> address_pattern (param_walletAddress q')
        \<and> toLowerCase (param_walletAddress q') = toLowerCase (param_walletAddress q)
        \<and> query_page q' = query_page q \<and> query_limit q' = query_limit q"
  then show "getUserNFTs e db q' = getUserNFTs e db q"
    using getUserNFTs_case_insensitive by blast
next
  fix q :: list_request and res ops nfts pg meta and x :: enriched_nft
  assume "getUserNFTs e db q = (res, ops) \<and> content res = ListData nfts pg meta \<and> x \<in> set nfts"
  then show "walletAddress x = toLowerCase (param_walletAddress q)"
    using getUserNFTs_owner by blast
qed


lemma saveNFT_ex_request:
  "saveNFT ex_env [] ex_request =
     (\<lparr> http_status = 201, success = True, message = Some ''NFT saved successfully'',
        content = SavedData ex_doc 1 True \<rparr>, [ex_doc],
      [FindOne (transactionHash ex_doc), Insert ex_doc, CountDocuments (walletAddress ex_doc)])"
  by code_simp

lemma ex_request_fields:
  "req_walletAddress ex_request = JStr ex_wallet"
  "req_contractAddress ex_request = JStr ex_wallet"
  "req_transactionHash ex_request = JStr ex_hash"
  "list_all truthy (required_values ex_request)"
  by (simp_all add: ex_request_def required_values_def ex_wallet_def ex_cid_def ex_hash_def)

lemma ex_wallet_patterns:
  "address_pattern ex_wallet" "address_pattern (toLowerCase ex_wallet)"
  by code_simp+

theorem lowercase_normalization_witness:
  "saveNFT ex_env [] ex_request =
     (\<lparr> http_status = 201, success = True, message = Some ''NFT saved successfully'',
        content = SavedData ex_doc 1 True \<rparr>, [ex_doc],
      [FindOne (transactionHash ex_doc), Insert ex_doc, CountDocuments (walletAddress ex_doc)])
   \<and> walletAddress ex_doc = toLowerCase ex_wallet
   \<and> contractAddress ex_doc = toLowerCase ex_wallet
   \<and> transactionHash ex_doc = toLowerCase ex_hash
   \<and> saveNFT ex_env [ex_doc]
         (ex_request\<lparr> req_walletAddress := JStr (toLowerCase ex_wallet),
                      req_contractAddress := JStr (toLowerCase ex_wallet),
                      req_transactionHash := JStr (toLowerCase ex_hash) \<rparr>)
       = saveNFT ex_env [ex_doc] ex_request
   \<and> message (fst (saveNFT ex_env [ex_doc] ex_request)) = Some ''NFT already recorded''
   \<and> getUserNFTs ex_env [ex_doc] (ex_list_request\<lparr> param_walletAddress := toLowerCase ex_wallet \<rparr>)
       = getUserNFTs ex_env [ex_doc] ex_list_request"
proof -
  note t0 = lowercase_normalization [of ex_env "[]" ex_request]
  note t1 = lowercase_normalization [of ex_env "[ex_doc]" ex_request]
  have s: "saveNFT ex_env [] ex_request =
     (\<lparr> http_status = 201, success = True, message = Some ''NFT saved successfully'',
        content = SavedData ex_doc 1 True \<rparr>, [ex_doc],
      [FindOne (transactionHash ex_doc), Insert ex_doc, CountDocuments (walletAddress ex_doc)])
     \<and> [ex_doc] \<noteq> []"
    using saveNFT_ex_request by simp
  from t0 [THEN conjunct1, rule_format, OF s] obtain d w a h where
    "[ex_doc] = [] @ [d]"
    "castString (req_walletAddress ex_request) = CastTo w" "walletAddress d = toLowerCase w"
    "castString (req_contractAddress ex_request) = CastTo a" "contractAddress d = toLowerCase a"
    "req_transactionHash ex_request = JStr h" "transactionHash d = toLowerCase h"
    by blast
  then have 1: "walletAddress ex_doc = toLowerCase ex_wallet"
    "contractAddress ex_doc = toLowerCase ex_wallet"
    "transactionHash ex_doc = toLowerCase ex_hash"
    by (simp_all add: ex_request_fields)
  have c2: "req_walletAddress ex_request = JStr ex_wallet
        \<and> req_contractAddress ex_request = JStr ex_wallet
        \<and> req_transactionHash ex_request = JStr ex_hash
        \<and> toLowerCase (toLowerCase ex_wallet) = toLowerCase ex_wallet
        \<and> toLowerCase (toLowerCase ex_wallet) = toLowerCase ex_wallet
        \<and> toLowerCase (toLowerCase ex_hash) = toLowerCase ex_hash"
    by (simp only: ex_request_fields toLowerCase_idem simp_thms)
  note 2 = t1 [THEN conjunct2, THEN conjunct1, rule_format, OF c2]
  have c3: "list_all truthy (required_values ex_request)
        \<and> req_transactionHash ex_request = JStr ex_hash"
    by (simp only: ex_request_fields simp_thms)
  from t1 [THEN conjunct2, THEN conjunct2, THEN conjunct1, rule_format, OF c3, THEN conjunct1]
  have 3: "message (fst (saveNFT ex_env [ex_doc] ex_request)) = Some ''NFT already recorded''"
    by (simp add: 1)
  have c4: "address_pattern (param_walletAddress ex_list_request)
        \<and> address_pattern
            (param_walletAddress (ex_list_request\<lparr> param_walletAddress := toLowerCase ex_wallet \<rparr>))
        \<and> toLowerCase
            (param_walletAddress (ex_list_request\<lparr> param_walletAddress := toLowerCase ex_wallet \<rparr>))
           = toLowerCase (param_walletAddress ex_list_request)
        \<and> query_page (ex_list_request\<lparr> param_walletAddress := toLowerCase ex_wallet \<rparr>)
           = query_page ex_list_request
        \<and> query_limit (ex_list_request\<lparr> param_walletAddress := toLowerCase ex_wallet \<rparr>)
           = query_limit ex_list_request"
    by (simp add: ex_list_request_def ex_wallet_patterns toLowerCase_idem)
  note 4 = t1 [THEN conjunct2, THEN conjunct2, THEN conjunct2, THEN conjunct1, rule_format,
               OF c4]
  from saveNFT_ex_request 1 2 3 4 show ?thesis by (simp only: simp_thms)
qed

text \<open>
  C5 as stated fails at read time: the address of \<open>ex_request\<close> written with an
  uppercase \<^verbatim>\<open>0X\<close> differs from it only in letter case and is accepted by
  \<^verbatim>\<open>saveNFT\<close>, which stores the same record; but \<^verbatim>\<open>getUserNFTs\<close> answers
  it with the 400 of the format test, where the lowercase prefix lists the record.
\<close>

theorem lowercase_normalization_counterexample:
  "toLowerCase ex_wallet_0X = toLowerCase ex_wallet
   \<and> saveNFT ex_env [] (ex_request\<lparr> req_walletAddress := JStr ex_wallet_0X \<rparr>) =
       (\<lparr> http_status = 201, success = True, message = Some ''NFT saved successfully'',
          content = SavedData ex_doc 1 True \<rparr>, [ex_doc],
        [FindOne (transactionHash ex_doc), Insert ex_doc,
         CountDocuments (walletAddress ex_doc)])
   \<and> getUserNFTs ex_env [ex_doc] (ex_list_request\<lparr> param_walletAddress := ex_wallet_0X \<rparr>) =
       (\<lparr> http_status = 400, success = False,
          message = Some ''Invalid wallet address format'', content = NoContent \<rparr>, [])
   \<and> http_status (fst (getUserNFTs ex_env [ex_doc] ex_list_request)) = 200
   \<and> snd (getUserNFTs ex_env [ex_doc] ex_list_request) =
       [Find (walletAddress ex_doc) 0 10, CountDocuments (walletAddress ex_doc)]"
  by code_simp

section \<open>The unique index within one request\<close>

lemma new_NFT_hash:
  assumes "new_NFT e r data = Inr d" and "req_transactionHash r = JStr h"
  shows "transactionHash d = toLowerCase h"
proof -
  from new_NFT_Inr [OF assms(1)] have
    "transactionHash_path (req_transactionHash r) = Inr (transactionHash d)" by simp
  then obtain h' where "castString (req_transactionHash r) = CastTo h'"
    and "transactionHash d = toLowerCase h'"
    unfolding transactionHash_path_def by (blast dest: string_path_lower)
  with assms(2) show ?thesis by simp
qed

text \<open>In one request the pre-check and the unique index agree: the insert never reports a
  duplicate key, and the second 409 of the handler is left to concurrent writers.\<close>

lemma saveNFT_try_no_duplicate_key:
  "fst (saveNFT_try e db r) \<noteq> Inl (MongoServerError 11000)"
proof (cases "list_all truthy (required_values r)")
  case False
  then show ?thesis by (auto simp add: saveNFT_try_def required_values_def)
next
  case True
  show ?thesis
  proof (cases "req_transactionHash r")
    case (JStr h)
    show ?thesis
    proof (cases "findOne (toLowerCase h) db")
      case (Some x)
      with True JStr show ?thesis
        by (simp add: saveNFT_try_def required_values_def)
    next
      case None
      show ?thesis
      proof (cases "nftData e r")
        case (Inl error)
        then have "error = TypeError"
          by (auto simp add: nftData_def Let_def split: if_splits sum.splits option.splits
              elim: newDate.elims)
        with Inl True JStr None show ?thesis
          by (simp add: saveNFT_try_def required_values_def)
      next
        case data: (Inr data)
        show ?thesis
        proof (cases "new_NFT e r data")
          case (Inl errors)
          with data True JStr None show ?thesis
            by (simp add: saveNFT_try_def required_values_def)
        next
          case (Inr newNFT)
          from new_NFT_hash [OF Inr JStr]
          have "transactionHash (pre_save newNFT) = toLowerCase h"
            by (simp add: pre_save_fields toLowerCase_idem)
          with None have "insert_nft (pre_save newNFT) db = Inr (db @ [pre_save newNFT])"
            by (auto simp add: insert_nft_def findOne_None_iff)
          with data True JStr None Inr show ?thesis
            by (cases "req_walletAddress r")
               (simp_all add: saveNFT_try_def required_values_def Let_def)
        qed
      qed
    qed
  qed (use True in \<open>simp_all add: saveNFT_try_def required_values_def\<close>)
qed

end
